theory Spec2Isabelle
  imports Main "HOL-Library.Word" "HOL-Library.Log_Nat" "HOL-Library.Monad_Syntax"
begin

unbundle bit_operations_syntax

section \<open>Machine types\<close>

type_synonym u8 = "8 word"
type_synonym u16 = "16 word"
type_synonym u32 = "32 word"

text \<open>
  The driver only ever transfers two bytes (\<^verbatim>\<open>uint8_t buf[2]\<close>), so a transfer buffer
  is a pair of bytes.
\<close>

type_synonym buf2 = "u8 \<times> u8"

section \<open>Floating point\<close>

text \<open>
  A \<^verbatim>\<open>float\<close> or \<^verbatim>\<open>double\<close> is modelled by the rational number it denotes. Every
  arithmetic operation of the source is the exact operation followed by rounding to the
  format (round to nearest, ties to even), as IEEE 754 prescribes for binary32 and binary64.
  Subnormal numbers are covered by the minimal exponent. Not modelled: infinities, NaN and
  the sign of zero; a result beyond the largest finite number is rounded as if the exponent
  range had no upper end. Comparisons of floating-point numbers are exact, so they are the
  comparisons of the rationals.
\<close>

definition rne :: "rat \<Rightarrow> int" where
  \<comment> \<open>nearest integer, ties to the even one\<close>
  "rne x = (let f = \<lfloor>x\<rfloor>; d = x - of_int f in
     if d < 1/2 then f else if 1/2 < d then f + 1 else if even f then f else f + 1)"

definition ilog2 :: "rat \<Rightarrow> int" where
  \<comment> \<open>the binary exponent of a positive rational: \<open>2 powi ilog2 x \<le> x < 2 powi (ilog2 x + 1)\<close>\<close>
  "ilog2 x = (case quotient_of x of (a, b) \<Rightarrow>
     (let k = bitlen a - bitlen b in if 2 powi k \<le> x then k else k - 1))"

definition round_to :: "nat \<Rightarrow> int \<Rightarrow> rat \<Rightarrow> rat" where
  \<comment> \<open>rounding to \<open>p\<close> significant bits, exponents not below \<open>emin\<close>\<close>
  "round_to p emin x = (if x = 0 then 0 else
     let e = max (ilog2 \<bar>x\<bar>) emin; q = 2 powi (e - int p + 1)
     in of_int (rne (x / q)) * q)"

definition f32 :: "rat \<Rightarrow> rat" where
  "f32 = round_to 24 (- 126)"

definition f64 :: "rat \<Rightarrow> rat" where
  "f64 = round_to 53 (- 1022)"

definition trunc :: "rat \<Rightarrow> int" where
  \<comment> \<open>C discards the fractional part when it converts a floating value to an integer\<close>
  "trunc x = (if 0 \<le> x then \<lfloor>x\<rfloor> else \<lceil>x\<rceil>)"

definition to_uint16 :: "rat \<Rightarrow> u16 option" where
  \<comment> \<open>\<^verbatim>\<open>(uint16_t)x\<close> for a floating \<open>x\<close>; the conversion is undefined (\<open>None\<close>) when the
      integral part is not a value of \<^verbatim>\<open>uint16_t\<close>\<close>
  "to_uint16 x = (let t = trunc x in
     if 0 \<le> t \<and> t < 65536 then Some (word_of_int t) else None)"

section \<open>The handle\<close>

text \<open>
  The capabilities linked into the handle are function pointers. They act on the world
  outside the driver (bus, device, clock, console), whose state has the type \<open>'e\<close>; a null
  pointer is \<open>None\<close>. \<^verbatim>\<open>iic_read\<close> receives the buffer and returns it as the callee left it.
\<close>

record 'e ina226_handle =
  iic_addr :: u8
  iic_init :: "('e \<Rightarrow> u8 \<times> 'e) option"
  iic_deinit :: "('e \<Rightarrow> u8 \<times> 'e) option"
  iic_read :: "(u8 \<Rightarrow> u8 \<Rightarrow> buf2 \<Rightarrow> u16 \<Rightarrow> 'e \<Rightarrow> u8 \<times> buf2 \<times> 'e) option"
  iic_write :: "(u8 \<Rightarrow> u8 \<Rightarrow> buf2 \<Rightarrow> u16 \<Rightarrow> 'e \<Rightarrow> u8 \<times> 'e) option"
  delay_ms :: "(u32 \<Rightarrow> 'e \<Rightarrow> 'e) option"
  debug_print :: "(string \<Rightarrow> 'e \<Rightarrow> 'e) option"
  receive_callback :: "(u8 \<Rightarrow> 'e \<Rightarrow> 'e) option"
  r :: rat
  current_lsb :: rat
  inited :: u8
  trigger :: u8

text \<open>
  A driver function returns a status byte and stores its results through output pointers
  when the status is 0. In the model its result is \<open>Inl c\<close> for a status \<open>c \<noteq> 0\<close> and
  \<open>Inr v\<close> for status 0 with the stored values \<open>v\<close>, together with the handle and the world
  as the call leaves them. The whole outcome is \<open>None\<close> where the C program has no defined
  behaviour: a call through a null capability, or an undefined conversion.
\<close>

type_synonym ('a, 'e) outcome = "((u8 + 'a) \<times> 'e ina226_handle \<times> 'e) option"

type_synonym ('a, 'e) api_outcome = "((u8 + 'a) \<times> 'e ina226_handle option \<times> 'e) option"

definition call_debug :: "'e ina226_handle \<Rightarrow> string \<Rightarrow> 'e \<Rightarrow> 'e option" where
  "call_debug h msg e = map_option (\<lambda>f. f msg e) (debug_print h)"

definition call_delay :: "'e ina226_handle \<Rightarrow> u32 \<Rightarrow> 'e \<Rightarrow> 'e option" where
  "call_delay h ms e = map_option (\<lambda>f. f ms e) (delay_ms h)"

definition with_handle ::
  "'e ina226_handle option \<Rightarrow> 'e \<Rightarrow> ('e ina226_handle \<Rightarrow> ('a, 'e) outcome) \<Rightarrow> ('a, 'e) api_outcome" where
  \<comment> \<open>the two checks that open every register operation:
      \<^verbatim>\<open>if (handle == NULL) return 2; if (handle->inited != 1) return 3;\<close>\<close>
  "with_handle hp e body = (case hp of
       None \<Rightarrow> Some (Inl 2, None, e)
     | Some h \<Rightarrow>
         if inited h \<noteq> 1 then Some (Inl 3, Some h, e)
         else map_option (\<lambda>(res, h', e'). (res, Some h', e')) (body h))"

section \<open>Registers and transport\<close>

definition INA226_REG_CONF :: u8 where "INA226_REG_CONF = 0x00"
definition INA226_REG_SHUNT_VOLTAGE :: u8 where "INA226_REG_SHUNT_VOLTAGE = 0x01"
definition INA226_REG_BUS_VOLTAGE :: u8 where "INA226_REG_BUS_VOLTAGE = 0x02"
definition INA226_REG_POWER :: u8 where "INA226_REG_POWER = 0x03"
definition INA226_REG_CURRENT :: u8 where "INA226_REG_CURRENT = 0x04"
definition INA226_REG_CALIBRATION :: u8 where "INA226_REG_CALIBRATION = 0x05"
definition INA226_REG_MASK :: u8 where "INA226_REG_MASK = 0x06"
definition INA226_REG_ALERT_LIMIT :: u8 where "INA226_REG_ALERT_LIMIT = 0x07"
definition INA226_REG_MANUFACTURER :: u8 where "INA226_REG_MANUFACTURER = 0xFE"
definition INA226_REG_DIE :: u8 where "INA226_REG_DIE = 0xFF"

definition INA226_READ_TIMEOUT :: u16 where "INA226_READ_TIMEOUT = 1000"

definition a_ina226_iic_read :: "'e ina226_handle \<Rightarrow> u8 \<Rightarrow> 'e \<Rightarrow> ((u8 + u16) \<times> 'e) option" where
  \<comment> \<open>\<open>Inl 1\<close>: read failed, \<^verbatim>\<open>*data\<close> untouched; \<open>Inr d\<close>: the big-endian value read\<close>
  "a_ina226_iic_read h reg e = (case iic_read h of
       None \<Rightarrow> None
     | Some rd \<Rightarrow>
         (case rd (iic_addr h) reg (0, 0) 2 e of
            (res, (b0, b1), e') \<Rightarrow>
              if res \<noteq> 0 then Some (Inl 1, e')
              else Some (Inr (push_bit 8 (ucast b0) OR ucast b1), e')))"

definition a_ina226_iic_write :: "'e ina226_handle \<Rightarrow> u8 \<Rightarrow> u16 \<Rightarrow> 'e \<Rightarrow> (u8 \<times> 'e) option" where
  "a_ina226_iic_write h reg data e = (case iic_write h of
       None \<Rightarrow> None
     | Some wr \<Rightarrow>
         (case wr (iic_addr h) reg (ucast (drop_bit 8 data AND 0xFF), ucast (drop_bit 0 data AND 0xFF)) 2 e of
            (res, e') \<Rightarrow> if res \<noteq> 0 then Some (1, e') else Some (0, e')))"

definition status :: "u8 \<Rightarrow> 'a \<Rightarrow> u8 + 'a" where
  \<comment> \<open>a returned status byte as a result: 0 is success\<close>
  "status c v = (if c = 0 then Inr v else Inl c)"

section \<open>Configuration codec\<close>

datatype ina226_avg_t =
  INA226_AVG_1 | INA226_AVG_4 | INA226_AVG_16 | INA226_AVG_64
  | INA226_AVG_128 | INA226_AVG_256 | INA226_AVG_512 | INA226_AVG_1024

datatype ina226_conversion_time_t =
  INA226_CONVERSION_TIME_140_US | INA226_CONVERSION_TIME_204_US
  | INA226_CONVERSION_TIME_332_US | INA226_CONVERSION_TIME_588_US
  | INA226_CONVERSION_TIME_1P1_MS | INA226_CONVERSION_TIME_2P116_MS
  | INA226_CONVERSION_TIME_4P156_MS | INA226_CONVERSION_TIME_8P244_MS

datatype ina226_mode_t =
  INA226_MODE_POWER_DOWN | INA226_MODE_SHUNT_VOLTAGE_TRIGGERED
  | INA226_MODE_BUS_VOLTAGE_TRIGGERED | INA226_MODE_SHUNT_BUS_VOLTAGE_TRIGGERED
  | INA226_MODE_SHUTDOWN | INA226_MODE_SHUNT_VOLTAGE_CONTINUOUS
  | INA226_MODE_BUS_VOLTAGE_CONTINUOUS | INA226_MODE_SHUNT_BUS_VOLTAGE_CONTINUOUS

fun avg_value :: "ina226_avg_t \<Rightarrow> u16" where
  "avg_value INA226_AVG_1 = 0"
| "avg_value INA226_AVG_4 = 1"
| "avg_value INA226_AVG_16 = 2"
| "avg_value INA226_AVG_64 = 3"
| "avg_value INA226_AVG_128 = 4"
| "avg_value INA226_AVG_256 = 5"
| "avg_value INA226_AVG_512 = 6"
| "avg_value INA226_AVG_1024 = 7"

fun conversion_time_value :: "ina226_conversion_time_t \<Rightarrow> u16" where
  "conversion_time_value INA226_CONVERSION_TIME_140_US = 0"
| "conversion_time_value INA226_CONVERSION_TIME_204_US = 1"
| "conversion_time_value INA226_CONVERSION_TIME_332_US = 2"
| "conversion_time_value INA226_CONVERSION_TIME_588_US = 3"
| "conversion_time_value INA226_CONVERSION_TIME_1P1_MS = 4"
| "conversion_time_value INA226_CONVERSION_TIME_2P116_MS = 5"
| "conversion_time_value INA226_CONVERSION_TIME_4P156_MS = 6"
| "conversion_time_value INA226_CONVERSION_TIME_8P244_MS = 7"

fun mode_value :: "ina226_mode_t \<Rightarrow> u16" where
  "mode_value INA226_MODE_POWER_DOWN = 0x0"
| "mode_value INA226_MODE_SHUNT_VOLTAGE_TRIGGERED = 0x1"
| "mode_value INA226_MODE_BUS_VOLTAGE_TRIGGERED = 0x2"
| "mode_value INA226_MODE_SHUNT_BUS_VOLTAGE_TRIGGERED = 0x3"
| "mode_value INA226_MODE_SHUTDOWN = 0x4"
| "mode_value INA226_MODE_SHUNT_VOLTAGE_CONTINUOUS = 0x5"
| "mode_value INA226_MODE_BUS_VOLTAGE_CONTINUOUS = 0x6"
| "mode_value INA226_MODE_SHUNT_BUS_VOLTAGE_CONTINUOUS = 0x7"

text \<open>
  The getters cast a three-bit value to the enumeration. All eight values name a member.
\<close>

definition avg_of :: "u16 \<Rightarrow> ina226_avg_t" where
  "avg_of w = (if w = 0 then INA226_AVG_1 else if w = 1 then INA226_AVG_4
     else if w = 2 then INA226_AVG_16 else if w = 3 then INA226_AVG_64
     else if w = 4 then INA226_AVG_128 else if w = 5 then INA226_AVG_256
     else if w = 6 then INA226_AVG_512 else INA226_AVG_1024)"

definition conversion_time_of :: "u16 \<Rightarrow> ina226_conversion_time_t" where
  "conversion_time_of w = (if w = 0 then INA226_CONVERSION_TIME_140_US
     else if w = 1 then INA226_CONVERSION_TIME_204_US
     else if w = 2 then INA226_CONVERSION_TIME_332_US
     else if w = 3 then INA226_CONVERSION_TIME_588_US
     else if w = 4 then INA226_CONVERSION_TIME_1P1_MS
     else if w = 5 then INA226_CONVERSION_TIME_2P116_MS
     else if w = 6 then INA226_CONVERSION_TIME_4P156_MS
     else INA226_CONVERSION_TIME_8P244_MS)"

definition mode_of :: "u16 \<Rightarrow> ina226_mode_t" where
  "mode_of w = (if w = 0 then INA226_MODE_POWER_DOWN
     else if w = 1 then INA226_MODE_SHUNT_VOLTAGE_TRIGGERED
     else if w = 2 then INA226_MODE_BUS_VOLTAGE_TRIGGERED
     else if w = 3 then INA226_MODE_SHUNT_BUS_VOLTAGE_TRIGGERED
     else if w = 4 then INA226_MODE_SHUTDOWN
     else if w = 5 then INA226_MODE_SHUNT_VOLTAGE_CONTINUOUS
     else if w = 6 then INA226_MODE_BUS_VOLTAGE_CONTINUOUS
     else INA226_MODE_SHUNT_BUS_VOLTAGE_CONTINUOUS)"

definition ina226_set_average_mode ::
  "'e ina226_handle option \<Rightarrow> ina226_avg_t \<Rightarrow> 'e \<Rightarrow> (unit, 'e) api_outcome" where
  "ina226_set_average_mode hp mode e = with_handle hp e (\<lambda>h. do {
     (rd, e1) \<leftarrow> a_ina226_iic_read h INA226_REG_CONF e;
     case rd of
       Inl _ \<Rightarrow> do {
         e2 \<leftarrow> call_debug h ''ina226: read conf register failed.\<newline>'' e1;
         Some (Inl 1, h, e2) }
     | Inr prev \<Rightarrow> do {
         (res, e2) \<leftarrow> a_ina226_iic_write h INA226_REG_CONF
            ((prev AND NOT (push_bit 9 0x7)) OR push_bit 9 (avg_value mode)) e1;
         Some (status res (), h, e2) } })"

definition ina226_get_average_mode ::
  "'e ina226_handle option \<Rightarrow> 'e \<Rightarrow> (ina226_avg_t, 'e) api_outcome" where
  "ina226_get_average_mode hp e = with_handle hp e (\<lambda>h. do {
     (rd, e1) \<leftarrow> a_ina226_iic_read h INA226_REG_CONF e;
     case rd of
       Inl _ \<Rightarrow> do {
         e2 \<leftarrow> call_debug h ''ina226: read conf register failed.\<newline>'' e1;
         Some (Inl 1, h, e2) }
     | Inr prev \<Rightarrow> Some (Inr (avg_of (drop_bit 9 prev AND 0x07)), h, e1) })"

definition ina226_set_bus_voltage_conversion_time ::
  "'e ina226_handle option \<Rightarrow> ina226_conversion_time_t \<Rightarrow> 'e \<Rightarrow> (unit, 'e) api_outcome" where
  "ina226_set_bus_voltage_conversion_time hp t e = with_handle hp e (\<lambda>h. do {
     (rd, e1) \<leftarrow> a_ina226_iic_read h INA226_REG_CONF e;
     case rd of
       Inl _ \<Rightarrow> do {
         e2 \<leftarrow> call_debug h ''ina226: read conf register failed.\<newline>'' e1;
         Some (Inl 1, h, e2) }
     | Inr prev \<Rightarrow> do {
         (res, e2) \<leftarrow> a_ina226_iic_write h INA226_REG_CONF
            ((prev AND NOT (push_bit 6 7)) OR push_bit 6 (conversion_time_value t)) e1;
         Some (status res (), h, e2) } })"

definition ina226_get_bus_voltage_conversion_time ::
  "'e ina226_handle option \<Rightarrow> 'e \<Rightarrow> (ina226_conversion_time_t, 'e) api_outcome" where
  "ina226_get_bus_voltage_conversion_time hp e = with_handle hp e (\<lambda>h. do {
     (rd, e1) \<leftarrow> a_ina226_iic_read h INA226_REG_CONF e;
     case rd of
       Inl _ \<Rightarrow> do {
         e2 \<leftarrow> call_debug h ''ina226: read conf register failed.\<newline>'' e1;
         Some (Inl 1, h, e2) }
     | Inr prev \<Rightarrow> Some (Inr (conversion_time_of (drop_bit 6 prev AND 0x07)), h, e1) })"

definition ina226_set_shunt_voltage_conversion_time ::
  "'e ina226_handle option \<Rightarrow> ina226_conversion_time_t \<Rightarrow> 'e \<Rightarrow> (unit, 'e) api_outcome" where
  "ina226_set_shunt_voltage_conversion_time hp t e = with_handle hp e (\<lambda>h. do {
     (rd, e1) \<leftarrow> a_ina226_iic_read h INA226_REG_CONF e;
     case rd of
       Inl _ \<Rightarrow> do {
         e2 \<leftarrow> call_debug h ''ina226: read conf register failed.\<newline>'' e1;
         Some (Inl 1, h, e2) }
     | Inr prev \<Rightarrow> do {
         (res, e2) \<leftarrow> a_ina226_iic_write h INA226_REG_CONF
            ((prev AND NOT (push_bit 3 7)) OR push_bit 3 (conversion_time_value t)) e1;
         Some (status res (), h, e2) } })"

definition ina226_get_shunt_voltage_conversion_time ::
  "'e ina226_handle option \<Rightarrow> 'e \<Rightarrow> (ina226_conversion_time_t, 'e) api_outcome" where
  "ina226_get_shunt_voltage_conversion_time hp e = with_handle hp e (\<lambda>h. do {
     (rd, e1) \<leftarrow> a_ina226_iic_read h INA226_REG_CONF e;
     case rd of
       Inl _ \<Rightarrow> do {
         e2 \<leftarrow> call_debug h ''ina226: read conf register failed.\<newline>'' e1;
         Some (Inl 1, h, e2) }
     | Inr prev \<Rightarrow> Some (Inr (conversion_time_of (drop_bit 3 prev AND 0x07)), h, e1) })"


definition ina226_set_mode ::
  "'e ina226_handle option \<Rightarrow> ina226_mode_t \<Rightarrow> 'e \<Rightarrow> (unit, 'e) api_outcome" where
  "ina226_set_mode hp mode e = with_handle hp e (\<lambda>h. do {
     (rd, e1) \<leftarrow> a_ina226_iic_read h INA226_REG_CONF e;
     case rd of
       Inl _ \<Rightarrow> do {
         e2 \<leftarrow> call_debug h ''ina226: read conf register failed.\<newline>'' e1;
         Some (Inl 1, h, e2) }
     | Inr prev \<Rightarrow> do {
         (res, e2) \<leftarrow> a_ina226_iic_write h INA226_REG_CONF
            ((prev AND NOT (push_bit 0 0x7)) OR push_bit 0 (mode_value mode)) e1;
         if res \<noteq> 0 then do {
           e3 \<leftarrow> call_debug h ''ina226: write conf register failed.\<newline>'' e2;
           Some (Inl 1, h, e3) }
         else if mode = INA226_MODE_SHUNT_VOLTAGE_TRIGGERED
                 \<or> mode = INA226_MODE_BUS_VOLTAGE_TRIGGERED
                 \<or> mode = INA226_MODE_SHUNT_BUS_VOLTAGE_TRIGGERED
         then Some (Inr (), h\<lparr>trigger := 1\<rparr>, e2)
         else Some (Inr (), h\<lparr>trigger := 0\<rparr>, e2) } })"

definition ina226_get_mode ::
  "'e ina226_handle option \<Rightarrow> 'e \<Rightarrow> (ina226_mode_t, 'e) api_outcome" where
  "ina226_get_mode hp e = with_handle hp e (\<lambda>h. do {
     (rd, e1) \<leftarrow> a_ina226_iic_read h INA226_REG_CONF e;
     case rd of
       Inl _ \<Rightarrow> do {
         e2 \<leftarrow> call_debug h ''ina226: read conf register failed.\<newline>'' e1;
         Some (Inl 1, h, e2) }
     | Inr prev \<Rightarrow> Some (Inr (mode_of (drop_bit 0 prev AND 0x7)), h, e1) })"

section \<open>Conversion synchronisation\<close>

text \<open>
  The four measurement reads open with the same block: read the mask register, refuse on
  math overflow, and in triggered mode wait for the conversion-ready flag. The source
  repeats the block verbatim in each of them; the model states it once. Its loop is
  \<^verbatim>\<open>for (i = 0; i < timeout; i++) { ...; delay_ms(1); timeout--; }\<close>
  with \<^verbatim>\<open>uint16_t i, timeout\<close>; it yields \<open>Inl 1\<close> when a read fails inside the loop and
  otherwise \<open>Inr\<close> of the value \<^verbatim>\<open>timeout\<close> has when the loop is left.
\<close>

function wait_loop :: "'e ina226_handle \<Rightarrow> u16 \<Rightarrow> u16 \<Rightarrow> 'e \<Rightarrow> ((u8 + u16) \<times> 'e) option" where
  "wait_loop h i timeout e =
     (if i < timeout then
        (case a_ina226_iic_read h INA226_REG_MASK e of
           None \<Rightarrow> None
         | Some (Inl _, e1) \<Rightarrow>
             (case call_debug h ''ina226: read mask register failed.\<newline>'' e1 of
                None \<Rightarrow> None
              | Some e2 \<Rightarrow> Some (Inl 1, e2))
         | Some (Inr prev, e1) \<Rightarrow>
             if prev AND push_bit 3 1 \<noteq> 0 then Some (Inr timeout, e1)
             else (case call_delay h 1 e1 of
                     None \<Rightarrow> None
                   | Some e2 \<Rightarrow> wait_loop h (i + 1) (timeout - 1) e2))
      else Some (Inr timeout, e))"
  by pat_completeness auto
termination
proof (relation "measure (\<lambda>(h, i, timeout, e). unat timeout - unat i)")
  show "wf (measure (\<lambda>(h :: 'e ina226_handle, i :: u16, timeout :: u16, e :: 'e). unat timeout - unat i))"
    by simp
next
  fix h :: "'e ina226_handle" and i timeout :: u16 and e e1 e2 :: 'e
  assume lt: "i < timeout"
  from lt have "unat i < unat timeout"
    by (simp add: word_less_nat_alt)
  moreover from lt have "timeout \<noteq> 0"
    by auto
  then have "unat (timeout - 1) = unat timeout - 1"
    by (simp add: unat_minus_one)
  moreover have "unat i + unat (1 :: u16) < 2 ^ LENGTH(16)"
    using \<open>unat i < unat timeout\<close> unsigned_less [of timeout, where ?'a = nat] by simp
  then have "unat (i + 1) = unat i + 1"
    using unat_add_lem [of i 1] by simp
  ultimately show "((h, i + 1, timeout - 1, e2), (h, i, timeout, e))
      \<in> measure (\<lambda>(h, i, timeout, e). unat timeout - unat i)"
    by simp
qed

definition wait_conversion :: "'e ina226_handle \<Rightarrow> 'e \<Rightarrow> (unit, 'e) outcome" where
  "wait_conversion h e = do {
     (rd, e1) \<leftarrow> a_ina226_iic_read h INA226_REG_MASK e;
     case rd of
       Inl _ \<Rightarrow> do {
         e2 \<leftarrow> call_debug h ''ina226: read mask register failed.\<newline>'' e1;
         Some (Inl 1, h, e2) }
     | Inr prev \<Rightarrow>
         if prev AND push_bit 2 1 \<noteq> 0 then do {
           e2 \<leftarrow> call_debug h ''ina226: math overflow.\<newline>'' e1;
           Some (Inl 4, h, e2) }
         else if trigger h \<noteq> 0 then
           (if prev AND push_bit 3 1 = 0 then do {
              (lp, e2) \<leftarrow> wait_loop h 0 INA226_READ_TIMEOUT e1;
              case lp of
                Inl c \<Rightarrow> Some (Inl c, h, e2)
              | Inr timeout \<Rightarrow>
                  if timeout = 0 then do {
                    e3 \<leftarrow> call_debug h ''ina226: read timeout.\<newline>'' e2;
                    Some (Inl 5, h, e3) }
                  else Some (Inr (), h\<lparr>trigger := 0\<rparr>, e2) }
            else Some (Inr (), h\<lparr>trigger := 0\<rparr>, e1))
         else Some (Inr (), h, e1) }"

text \<open>
  The raw value of a signed register (\<^verbatim>\<open>int16_t\<close>, read through a union) is given as the
  integer it denotes.
\<close>

definition ina226_read_shunt_voltage ::
  "'e ina226_handle option \<Rightarrow> 'e \<Rightarrow> (int \<times> rat, 'e) api_outcome" where
  "ina226_read_shunt_voltage hp e = with_handle hp e (\<lambda>h. do {
     (w, h1, e1) \<leftarrow> wait_conversion h e;
     case w of
       Inl c \<Rightarrow> Some (Inl c, h1, e1)
     | Inr _ \<Rightarrow> do {
         (rd, e2) \<leftarrow> a_ina226_iic_read h1 INA226_REG_SHUNT_VOLTAGE e1;
         case rd of
           Inl _ \<Rightarrow> do {
             e3 \<leftarrow> call_debug h1 ''ina226: read shunt voltage register failed.\<newline>'' e2;
             Some (Inl 1, h1, e3) }
         | Inr u \<Rightarrow> Some (Inr (sint u, f32 (of_int (sint u) / 400)), h1, e2) } })"

definition ina226_read_bus_voltage ::
  "'e ina226_handle option \<Rightarrow> 'e \<Rightarrow> (u16 \<times> rat, 'e) api_outcome" where
  "ina226_read_bus_voltage hp e = with_handle hp e (\<lambda>h. do {
     (w, h1, e1) \<leftarrow> wait_conversion h e;
     case w of
       Inl c \<Rightarrow> Some (Inl c, h1, e1)
     | Inr _ \<Rightarrow> do {
         (rd, e2) \<leftarrow> a_ina226_iic_read h1 INA226_REG_BUS_VOLTAGE e1;
         case rd of
           Inl _ \<Rightarrow> do {
             e3 \<leftarrow> call_debug h1 ''ina226: read bus voltage register failed.\<newline>'' e2;
             Some (Inl 1, h1, e3) }
         | Inr raw \<Rightarrow> Some (Inr (raw, f32 (of_nat (unat raw) * (5/4))), h1, e2) } })"

definition ina226_read_current ::
  "'e ina226_handle option \<Rightarrow> 'e \<Rightarrow> (int \<times> rat, 'e) api_outcome" where
  "ina226_read_current hp e = with_handle hp e (\<lambda>h. do {
     (w, h1, e1) \<leftarrow> wait_conversion h e;
     case w of
       Inl c \<Rightarrow> Some (Inl c, h1, e1)
     | Inr _ \<Rightarrow> do {
         (rd, e2) \<leftarrow> a_ina226_iic_read h1 INA226_REG_CURRENT e1;
         case rd of
           Inl _ \<Rightarrow> do {
             e3 \<leftarrow> call_debug h1 ''ina226: read current register failed.\<newline>'' e2;
             Some (Inl 1, h1, e3) }
         | Inr u \<Rightarrow>
             Some (Inr (sint u, f32 (f64 (f64 (of_int (sint u) * current_lsb h1) * 1000))), h1, e2) } })"

definition ina226_read_power ::
  "'e ina226_handle option \<Rightarrow> 'e \<Rightarrow> (u16 \<times> rat, 'e) api_outcome" where
  "ina226_read_power hp e = with_handle hp e (\<lambda>h. do {
     (w, h1, e1) \<leftarrow> wait_conversion h e;
     case w of
       Inl c \<Rightarrow> Some (Inl c, h1, e1)
     | Inr _ \<Rightarrow> do {
         (rd, e2) \<leftarrow> a_ina226_iic_read h1 INA226_REG_POWER e1;
         case rd of
           Inl _ \<Rightarrow> do {
             e3 \<leftarrow> call_debug h1 ''ina226: read power register failed.\<newline>'' e2;
             Some (Inl 1, h1, e3) }
         | Inr raw \<Rightarrow>
             Some (Inr (raw, f32 (f64 (f64 (f64 (of_nat (unat raw) * current_lsb h1) * 25) * 1000))),
                   h1, e2) } })"


section \<open>Calibration and unit conversion\<close>

text \<open>
  The bounds of the resistance check are the single-precision literals \<^verbatim>\<open>-0.000001f\<close> and
  \<^verbatim>\<open>0.000001f\<close>, converted to \<^verbatim>\<open>double\<close> for the comparison; the other literals are
  \<^verbatim>\<open>double\<close>. \<^verbatim>\<open>pow(2.0, 15.0)\<close> is taken to be exactly \<open>2 ^ 15\<close>.
\<close>

definition ina226_calculate_calibration ::
  "'e ina226_handle option \<Rightarrow> 'e \<Rightarrow> (u16, 'e) api_outcome" where
  "ina226_calculate_calibration hp e = with_handle hp e (\<lambda>h.
     if - f32 (1/1000000) \<le> r h \<and> r h \<le> f32 (1/1000000) then do {
       e1 \<leftarrow> call_debug h ''ina226: r can't be zero.\<newline>'' e;
       Some (Inl 4, h, e1) }
     else do {
       let v = f64 (8192/100000);
       let lsb = f64 (f64 (v / r h) / 2 ^ 15);
       calibration \<leftarrow> to_uint16 (f64 (f64 (512/100000) / f64 (v / 2 ^ 15)));
       Some (Inr calibration, h\<lparr>current_lsb := lsb\<rparr>, e) })"

definition ina226_shunt_voltage_convert_to_register ::
  "'e ina226_handle option \<Rightarrow> rat \<Rightarrow> 'e \<Rightarrow> (u16, 'e) api_outcome" where
  "ina226_shunt_voltage_convert_to_register hp mV e = with_handle hp e (\<lambda>h. do {
     reg \<leftarrow> to_uint16 (f32 (mV * 400));
     Some (Inr reg, h, e) })"

definition ina226_shunt_voltage_convert_to_data ::
  "'e ina226_handle option \<Rightarrow> u16 \<Rightarrow> 'e \<Rightarrow> (rat, 'e) api_outcome" where
  "ina226_shunt_voltage_convert_to_data hp reg e = with_handle hp e (\<lambda>h.
     Some (Inr (f32 (of_nat (unat reg) / 400)), h, e))"

definition ina226_bus_voltage_convert_to_register ::
  "'e ina226_handle option \<Rightarrow> rat \<Rightarrow> 'e \<Rightarrow> (u16, 'e) api_outcome" where
  "ina226_bus_voltage_convert_to_register hp mV e = with_handle hp e (\<lambda>h. do {
     reg \<leftarrow> to_uint16 (f32 (mV / (5/4)));
     Some (Inr reg, h, e) })"

definition ina226_bus_voltage_convert_to_data ::
  "'e ina226_handle option \<Rightarrow> u16 \<Rightarrow> 'e \<Rightarrow> (rat, 'e) api_outcome" where
  "ina226_bus_voltage_convert_to_data hp reg e = with_handle hp e (\<lambda>h.
     Some (Inr (f32 (of_nat (unat reg) * (5/4))), h, e))"

definition ina226_power_convert_to_register ::
  "'e ina226_handle option \<Rightarrow> rat \<Rightarrow> 'e \<Rightarrow> (u16, 'e) api_outcome" where
  "ina226_power_convert_to_register hp mW e = with_handle hp e (\<lambda>h. do {
     reg \<leftarrow> to_uint16 (f64 (mW / f64 (f64 (current_lsb h * 25) * 1000)));
     Some (Inr reg, h, e) })"

definition ina226_power_convert_to_data ::
  "'e ina226_handle option \<Rightarrow> u16 \<Rightarrow> 'e \<Rightarrow> (rat, 'e) api_outcome" where
  "ina226_power_convert_to_data hp reg e = with_handle hp e (\<lambda>h.
     Some (Inr (f32 (f64 (f64 (f64 (of_nat (unat reg) * current_lsb h) * 25) * 1000))), h, e))"

section \<open>Alert dispatch\<close>

datatype ina226_status_t =
  INA226_STATUS_SHUNT_VOLTAGE_OVER_VOLTAGE
  | INA226_STATUS_SHUNT_VOLTAGE_UNDER_VOLTAGE
  | INA226_STATUS_BUS_VOLTAGE_OVER_VOLTAGE
  | INA226_STATUS_BUS_VOLTAGE_UNDER_VOLTAGE
  | INA226_STATUS_POWER_OVER_LIMIT

fun status_value :: "ina226_status_t \<Rightarrow> u8" where
  "status_value INA226_STATUS_SHUNT_VOLTAGE_OVER_VOLTAGE = 15"
| "status_value INA226_STATUS_SHUNT_VOLTAGE_UNDER_VOLTAGE = 14"
| "status_value INA226_STATUS_BUS_VOLTAGE_OVER_VOLTAGE = 13"
| "status_value INA226_STATUS_BUS_VOLTAGE_UNDER_VOLTAGE = 12"
| "status_value INA226_STATUS_POWER_OVER_LIMIT = 11"

definition run_callback :: "'e ina226_handle \<Rightarrow> ina226_status_t \<Rightarrow> 'e \<Rightarrow> 'e" where
  \<comment> \<open>\<^verbatim>\<open>if (handle->receive_callback != NULL) handle->receive_callback(type);\<close>\<close>
  "run_callback h type e = (case receive_callback h of
       None \<Rightarrow> e
     | Some cb \<Rightarrow> cb (status_value type) e)"

definition ina226_irq_handler ::
  "'e ina226_handle option \<Rightarrow> 'e \<Rightarrow> (unit, 'e) api_outcome" where
  "ina226_irq_handler hp e = with_handle hp e (\<lambda>h. do {
     (rd, e1) \<leftarrow> a_ina226_iic_read h INA226_REG_MASK e;
     case rd of
       Inl _ \<Rightarrow> do {
         e2 \<leftarrow> call_debug h ''ina226: read mask register failed.\<newline>'' e1;
         Some (Inl 1, h, e2) }
     | Inr prev \<Rightarrow>
         if prev AND push_bit 4 1 \<noteq> 0 then
           (if prev AND push_bit 15 1 \<noteq> 0
              then Some (Inr (), h, run_callback h INA226_STATUS_SHUNT_VOLTAGE_OVER_VOLTAGE e1)
            else if prev AND push_bit 14 1 \<noteq> 0
              then Some (Inr (), h, run_callback h INA226_STATUS_SHUNT_VOLTAGE_UNDER_VOLTAGE e1)
            else if prev AND push_bit 13 1 \<noteq> 0
              then Some (Inr (), h, run_callback h INA226_STATUS_BUS_VOLTAGE_OVER_VOLTAGE e1)
            else if prev AND push_bit 12 1 \<noteq> 0
              then Some (Inr (), h, run_callback h INA226_STATUS_BUS_VOLTAGE_UNDER_VOLTAGE e1)
            else if prev AND push_bit 11 1 \<noteq> 0
              then Some (Inr (), h, run_callback h INA226_STATUS_POWER_OVER_LIMIT e1)
            else Some (Inr (), h, e1))
         else Some (Inr (), h, e1) })"

section \<open>Lifecycle\<close>

definition call_iic_init :: "'e ina226_handle \<Rightarrow> 'e \<Rightarrow> (u8 \<times> 'e) option" where
  "call_iic_init h e = map_option (\<lambda>f. f e) (iic_init h)"

definition call_iic_deinit :: "'e ina226_handle \<Rightarrow> 'e \<Rightarrow> (u8 \<times> 'e) option" where
  "call_iic_deinit h e = map_option (\<lambda>f. f e) (iic_deinit h)"

definition init_abort :: "'e ina226_handle \<Rightarrow> string \<Rightarrow> u8 \<Rightarrow> 'e \<Rightarrow> (unit, 'e) outcome" where
  \<comment> \<open>the failure exits of \<^verbatim>\<open>ina226_init\<close> once the bus is open:
      \<^verbatim>\<open>handle->debug_print(msg); (void)handle->iic_deinit(); return code;\<close>\<close>
  "init_abort h msg code e = do {
     e1 \<leftarrow> call_debug h msg e;
     (_, e2) \<leftarrow> call_iic_deinit h e1;
     Some (Inl code, h, e2) }"

definition missing_link :: "'e ina226_handle \<Rightarrow> string \<Rightarrow> 'e \<Rightarrow> (unit, 'e) outcome" where
  \<comment> \<open>\<^verbatim>\<open>handle->debug_print(msg); return 3;\<close>\<close>
  "missing_link h msg e = do {
     e1 \<leftarrow> call_debug h msg e;
     Some (Inl 3, h, e1) }"

definition ina226_init :: "'e ina226_handle option \<Rightarrow> 'e \<Rightarrow> (unit, 'e) api_outcome" where
  "ina226_init hp e = (case hp of
       None \<Rightarrow> Some (Inl 2, None, e)
     | Some h \<Rightarrow> map_option (\<lambda>(res, h', e'). (res, Some h', e'))
        (if debug_print h = None then Some (Inl 3, h, e)
         else if iic_init h = None then missing_link h ''ina226: iic_init is null.\<newline>'' e
         else if iic_deinit h = None then missing_link h ''ina226: iic_deinit is null.\<newline>'' e
         else if iic_read h = None then missing_link h ''ina226: iic_read is null.\<newline>'' e
         else if iic_write h = None then missing_link h ''ina226: iic_write is null.\<newline>'' e
         else if delay_ms h = None then missing_link h ''ina226: delay_ms is null.\<newline>'' e
         else if receive_callback h = None
           then missing_link h ''ina226: receive_callback is null.\<newline>'' e
         else do {
           (res, e1) \<leftarrow> call_iic_init h e;
           if res \<noteq> 0 then do {
             e2 \<leftarrow> call_debug h ''ina226: iic init failed.\<newline>'' e1;
             Some (Inl 1, h, e2) }
           else do {
             (rd, e2) \<leftarrow> a_ina226_iic_read h INA226_REG_MANUFACTURER e1;
             case rd of
               Inl _ \<Rightarrow> init_abort h ''ina226: read manufacturer failed.\<newline>'' 4 e2
             | Inr prev \<Rightarrow>
                 if prev \<noteq> 0x5449 then init_abort h ''ina226: id is invalid.\<newline>'' 4 e2
                 else do {
                   (rd, e3) \<leftarrow> a_ina226_iic_read h INA226_REG_CONF e2;
                   case rd of
                     Inl _ \<Rightarrow> init_abort h ''ina226: read conf register failed.\<newline>'' 5 e3
                   | Inr prev \<Rightarrow> do {
                       (res, e4) \<leftarrow> a_ina226_iic_write h INA226_REG_CONF (prev OR push_bit 15 1) e3;
                       if res \<noteq> 0
                       then init_abort h ''ina226: write conf register failed.\<newline>'' 5 e4
                       else do {
                         e5 \<leftarrow> call_delay h 10 e4;
                         (rd, e6) \<leftarrow> a_ina226_iic_read h INA226_REG_CONF e5;
                         case rd of
                           Inl _ \<Rightarrow> init_abort h ''ina226: read conf register failed.\<newline>'' 5 e6
                         | Inr prev \<Rightarrow>
                             if prev AND push_bit 15 1 \<noteq> 0
                             then init_abort h ''ina226: soft reset failed.\<newline>'' 5 e6
                             else Some (Inr (), h\<lparr>trigger := 0, inited := 1\<rparr>, e6) } } } } }))"

definition ina226_deinit :: "'e ina226_handle option \<Rightarrow> 'e \<Rightarrow> (unit, 'e) api_outcome" where
  "ina226_deinit hp e = with_handle hp e (\<lambda>h. do {
     (rd, e1) \<leftarrow> a_ina226_iic_read h INA226_REG_CONF e;
     case rd of
       Inl _ \<Rightarrow> do {
         e2 \<leftarrow> call_debug h ''ina226: read conf register failed.\<newline>'' e1;
         Some (Inl 4, h, e2) }
     | Inr prev \<Rightarrow> do {
         (res, e2) \<leftarrow> a_ina226_iic_write h INA226_REG_CONF (prev AND NOT 0x07) e1;
         if res \<noteq> 0 then do {
           e3 \<leftarrow> call_debug h ''ina226: write conf register failed.\<newline>'' e2;
           Some (Inl 4, h, e3) }
         else do {
           (res, e3) \<leftarrow> call_iic_deinit h e2;
           if res \<noteq> 0 then do {
             e4 \<leftarrow> call_debug h ''ina226: iic deinit failed.\<newline>'' e3;
             Some (Inl 1, h, e4) }
           else Some (Inr (), h, e3) } } })"

definition ina226_set_reg ::
  "'e ina226_handle option \<Rightarrow> u8 \<Rightarrow> u16 \<Rightarrow> 'e \<Rightarrow> (unit, 'e) api_outcome" where
  "ina226_set_reg hp reg data e = with_handle hp e (\<lambda>h. do {
     (res, e1) \<leftarrow> a_ina226_iic_write h reg data e;
     Some (status res (), h, e1) })"

definition ina226_get_reg ::
  "'e ina226_handle option \<Rightarrow> u8 \<Rightarrow> 'e \<Rightarrow> (u16, 'e) api_outcome" where
  "ina226_get_reg hp reg e = with_handle hp e (\<lambda>h. do {
     (rd, e1) \<leftarrow> a_ina226_iic_read h reg e;
     Some (rd, h, e1) })"

definition ina226_set_resistance ::
  "'e ina226_handle option \<Rightarrow> rat \<Rightarrow> u8 \<times> 'e ina226_handle option" where
  "ina226_set_resistance hp resistance = (case hp of
       None \<Rightarrow> (2, None)
     | Some h \<Rightarrow> (0, Some (h\<lparr>r := resistance\<rparr>)))"


section \<open>The four measurement reads as one family\<close>

text \<open>
  To state a property of all four reads at once they are indexed by the quantity read.
  An unsigned raw value is given as the integer it denotes.
\<close>

datatype measurement = Shunt_voltage | Bus_voltage | Current | Power

fun measurement_register :: "measurement \<Rightarrow> u8" where
  "measurement_register Shunt_voltage = INA226_REG_SHUNT_VOLTAGE"
| "measurement_register Bus_voltage = INA226_REG_BUS_VOLTAGE"
| "measurement_register Current = INA226_REG_CURRENT"
| "measurement_register Power = INA226_REG_POWER"

definition map_result :: "('a \<Rightarrow> 'b) \<Rightarrow> ('a, 'e) api_outcome \<Rightarrow> ('b, 'e) api_outcome" where
  "map_result f = map_option (\<lambda>(res, hp, e). (map_sum id f res, hp, e))"

fun ina226_read :: "measurement \<Rightarrow> 'e ina226_handle option \<Rightarrow> 'e \<Rightarrow> (int \<times> rat, 'e) api_outcome" where
  "ina226_read Shunt_voltage hp e = ina226_read_shunt_voltage hp e"
| "ina226_read Bus_voltage hp e = map_result (\<lambda>(raw, mV). (uint raw, mV)) (ina226_read_bus_voltage hp e)"
| "ina226_read Current hp e = ina226_read_current hp e"
| "ina226_read Power hp e = map_result (\<lambda>(raw, mW). (uint raw, mW)) (ina226_read_power hp e)"

text \<open>
  The four reads differ only in the register they read, in the conversion of the raw value
  and in the message printed when the register read fails. With these three as functions
  of the quantity, one equation describes all four (lemma \<open>ina226_read_eq\<close>).
\<close>

fun measurement_value :: "measurement \<Rightarrow> rat \<Rightarrow> u16 \<Rightarrow> int \<times> rat" where
  "measurement_value Shunt_voltage lsb u = (sint u, f32 (of_int (sint u) / 400))"
| "measurement_value Bus_voltage lsb u = (uint u, f32 (of_nat (unat u) * (5/4)))"
| "measurement_value Current lsb u = (sint u, f32 (f64 (f64 (of_int (sint u) * lsb) * 1000)))"
| "measurement_value Power lsb u = (uint u, f32 (f64 (f64 (f64 (of_nat (unat u) * lsb) * 25) * 1000)))"

fun read_failed_message :: "measurement \<Rightarrow> string" where
  "read_failed_message Shunt_voltage = ''ina226: read shunt voltage register failed.\<newline>''"
| "read_failed_message Bus_voltage = ''ina226: read bus voltage register failed.\<newline>''"
| "read_failed_message Current = ''ina226: read current register failed.\<newline>''"
| "read_failed_message Power = ''ina226: read power register failed.\<newline>''"

definition read_register :: "measurement \<Rightarrow> (unit, 'e) outcome \<Rightarrow> (int \<times> rat, 'e) outcome" where
  \<comment> \<open>what a read does after the wait: pass a failure on, or read the register and convert\<close>
  "read_register q waited = do {
     (w, h1, e1) \<leftarrow> waited;
     case w of
       Inl c \<Rightarrow> Some (Inl c, h1, e1)
     | Inr _ \<Rightarrow> do {
         (rd, e2) \<leftarrow> a_ina226_iic_read h1 (measurement_register q) e1;
         case rd of
           Inl _ \<Rightarrow> do {
             e3 \<leftarrow> call_debug h1 (read_failed_message q) e2;
             Some (Inl 1, h1, e3) }
         | Inr u \<Rightarrow> Some (Inr (measurement_value q (current_lsb h1) u), h1, e2) } }"

section \<open>Observing the capabilities\<close>

text \<open>
  What the driver does to the outside world is the sequence of calls it makes through the
  handle. \<open>logging h\<close> is the handle \<open>h\<close> with every capability wrapped so that it also
  appends the call to a log kept beside the world. The wrapped capabilities are as
  arbitrary as those of \<open>h\<close>, so a statement about \<open>logging h\<close> for all \<open>h\<close> is a statement
  about the driver on every platform.
\<close>

datatype event =
  Iic_init | Iic_deinit
  | Iic_read u8
  | Iic_write u8 u16
  | Delay_ms u32
  | Debug_print string
  | Receive_callback u8

record 'e logged =
  world :: 'e
  events :: "event list"

definition log_event :: "event \<Rightarrow> 'e \<Rightarrow> 'e logged \<Rightarrow> 'e logged" where
  "log_event ev e' l = \<lparr>world = e', events = events l @ [ev]\<rparr>"

definition logging :: "'e ina226_handle \<Rightarrow> 'e logged ina226_handle" where
  "logging h = \<lparr>
     iic_addr = iic_addr h,
     iic_init = map_option (\<lambda>f l. case f (world l) of (res, e') \<Rightarrow> (res, log_event Iic_init e' l)) (iic_init h),
     iic_deinit = map_option (\<lambda>f l. case f (world l) of (res, e') \<Rightarrow> (res, log_event Iic_deinit e' l)) (iic_deinit h),
     iic_read = map_option (\<lambda>f addr reg buf len l. case f addr reg buf len (world l) of
                   (res, buf', e') \<Rightarrow> (res, buf', log_event (Iic_read reg) e' l)) (iic_read h),
     iic_write = map_option (\<lambda>f addr reg buf len l. case f addr reg buf len (world l) of
                   (res, e') \<Rightarrow> (res, log_event (Iic_write reg (push_bit 8 (ucast (fst buf)) OR ucast (snd buf))) e' l))
                   (iic_write h),
     delay_ms = map_option (\<lambda>f ms l. log_event (Delay_ms ms) (f ms (world l)) l) (delay_ms h),
     debug_print = map_option (\<lambda>f msg l. log_event (Debug_print msg) (f msg (world l)) l) (debug_print h),
     receive_callback = map_option (\<lambda>f type l. log_event (Receive_callback type) (f type (world l)) l)
                   (receive_callback h),
     r = r h,
     current_lsb = current_lsb h,
     inited = inited h,
     trigger = trigger h \<rparr>"

fun is_delay :: "event \<Rightarrow> bool" where
  "is_delay (Delay_ms _) = True"
| "is_delay _ = False"

fun is_callback :: "event \<Rightarrow> bool" where
  "is_callback (Receive_callback _) = True"
| "is_callback _ = False"

section \<open>A simulated device\<close>

text \<open>
  A register file behind a bus that never fails, for concrete runs. Writing the
  configuration register with the reset bit set restores its reset value, as the device
  does; any other write to it starts a conversion that takes \<open>conversion_ms\<close> milliseconds.
  The conversion-ready flag (bit 3 of the mask register) reads as set once no conversion
  is in progress. Time passes only in \<^verbatim>\<open>delay_ms\<close>. A device that is \<open>stuck\<close> never
  finishes a conversion: its conversion-ready flag always reads as clear.
\<close>

record sim =
  regs :: "u8 \<Rightarrow> u16"
  busy :: nat
  conversion_ms :: nat
  stuck :: bool
  bus_open :: bool

definition sim_iic_init :: "sim \<Rightarrow> u8 \<times> sim" where
  "sim_iic_init w = (0, w\<lparr>bus_open := True\<rparr>)"

definition sim_iic_deinit :: "sim \<Rightarrow> u8 \<times> sim" where
  "sim_iic_deinit w = (0, w\<lparr>bus_open := False\<rparr>)"

definition sim_register :: "sim \<Rightarrow> u8 \<Rightarrow> u16" where
  "sim_register w reg =
     (if reg = INA226_REG_MASK
      then (if busy w = 0 \<and> \<not> stuck w then regs w reg OR 8 else regs w reg AND NOT 8)
      else regs w reg)"

definition sim_iic_read :: "u8 \<Rightarrow> u8 \<Rightarrow> buf2 \<Rightarrow> u16 \<Rightarrow> sim \<Rightarrow> u8 \<times> buf2 \<times> sim" where
  "sim_iic_read addr reg buf len w =
     (0, (ucast (drop_bit 8 (sim_register w reg)), ucast (sim_register w reg)), w)"

definition sim_iic_write :: "u8 \<Rightarrow> u8 \<Rightarrow> buf2 \<Rightarrow> u16 \<Rightarrow> sim \<Rightarrow> u8 \<times> sim" where
  "sim_iic_write addr reg buf len w =
     (let v = push_bit 8 (ucast (fst buf)) OR ucast (snd buf) in
      if reg = INA226_REG_CONF
      then (if bit v 15 then (0, w\<lparr>regs := (regs w)(reg := 0x4127), busy := 0\<rparr>)
            else (0, w\<lparr>regs := (regs w)(reg := v), busy := conversion_ms w\<rparr>))
      else (0, w\<lparr>regs := (regs w)(reg := v)\<rparr>))"

definition sim_delay_ms :: "u32 \<Rightarrow> sim \<Rightarrow> sim" where
  "sim_delay_ms ms w = w\<lparr>busy := busy w - unat ms\<rparr>"

definition sim_debug_print :: "string \<Rightarrow> sim \<Rightarrow> sim" where
  "sim_debug_print msg w = w"

definition sim_receive_callback :: "u8 \<Rightarrow> sim \<Rightarrow> sim" where
  "sim_receive_callback type w = w"

definition sim_handle :: "sim ina226_handle" where
  \<comment> \<open>the handle after linking, as \<^verbatim>\<open>link_handle\<close> and \<^verbatim>\<open>init_one\<close> of the monitor prepare it:
      zeroed, capabilities linked, address pin 0, resistance \<^verbatim>\<open>0.004\<close>\<close>
  "sim_handle = \<lparr>
     iic_addr = 0x80,
     iic_init = Some sim_iic_init,
     iic_deinit = Some sim_iic_deinit,
     iic_read = Some sim_iic_read,
     iic_write = Some sim_iic_write,
     delay_ms = Some sim_delay_ms,
     debug_print = Some sim_debug_print,
     receive_callback = Some sim_receive_callback,
     r = f64 (4/1000),
     current_lsb = 0,
     inited = 0,
     trigger = 0 \<rparr>"

definition sim_device :: "u16 \<Rightarrow> u16 \<Rightarrow> nat \<Rightarrow> sim" where
  \<comment> \<open>a device with the given configuration and mask registers and conversion time\<close>
  "sim_device conf msk ms = \<lparr>
     regs = (\<lambda>_. 0)(INA226_REG_MANUFACTURER := 0x5449, INA226_REG_CONF := conf,
                     INA226_REG_MASK := msk),
     busy = 0,
     conversion_ms = ms,
     stuck = False,
     bus_open = False \<rparr>"

definition fresh :: "'e \<Rightarrow> 'e logged" where
  "fresh e = \<lparr>world = e, events = []\<rparr>"

section \<open>Runs of the driver\<close>

text \<open>
  A run applies mode settings and measurement reads to a handle, one after the other,
  whatever their status. Beside the handle and the world it keeps the configured mode:
  the mode of the last \<^verbatim>\<open>ina226_set_mode\<close> that returned 0, and \<open>None\<close> while the device
  still has the configuration its reset left. A run has no state (\<open>None\<close>) once a call
  has no defined behaviour.
\<close>

datatype driver_op = Set_mode ina226_mode_t | Read measurement

type_synonym 'e driver_state = "'e ina226_handle \<times> 'e \<times> ina226_mode_t option"

definition triggered_mode :: "ina226_mode_t \<Rightarrow> bool" where
  "triggered_mode m = (m = INA226_MODE_SHUNT_VOLTAGE_TRIGGERED
     \<or> m = INA226_MODE_BUS_VOLTAGE_TRIGGERED
     \<or> m = INA226_MODE_SHUNT_BUS_VOLTAGE_TRIGGERED)"

fun step :: "'e driver_state \<Rightarrow> driver_op \<Rightarrow> 'e driver_state option" where
  "step (h, e, c) (Set_mode m) = (case ina226_set_mode (Some h) m e of
       Some (Inr _, Some h', e') \<Rightarrow> Some (h', e', Some m)
     | Some (Inl _, Some h', e') \<Rightarrow> Some (h', e', c)
     | _ \<Rightarrow> None)"
| "step (h, e, c) (Read q) = (case ina226_read q (Some h) e of
       Some (_, Some h', e') \<Rightarrow> Some (h', e', c)
     | _ \<Rightarrow> None)"

fun run :: "'e driver_state \<Rightarrow> driver_op list \<Rightarrow> 'e driver_state option" where
  "run s [] = Some s"
| "run s (x # xs) = (case step s x of None \<Rightarrow> None | Some s' \<Rightarrow> run s' xs)"

section \<open>Alert priority as the specification words it\<close>

text \<open>
  The specification orders the alert conditions: shunt over-voltage, shunt under-voltage,
  bus over-voltage, bus under-voltage, power over-limit. The value of a status is the
  position of its bit in the mask register. The alert to report is the first condition
  in that order whose bit is set.
\<close>

definition alert_priority :: "ina226_status_t list" where
  "alert_priority = [INA226_STATUS_SHUNT_VOLTAGE_OVER_VOLTAGE,
     INA226_STATUS_SHUNT_VOLTAGE_UNDER_VOLTAGE,
     INA226_STATUS_BUS_VOLTAGE_OVER_VOLTAGE,
     INA226_STATUS_BUS_VOLTAGE_UNDER_VOLTAGE,
     INA226_STATUS_POWER_OVER_LIMIT]"

definition highest_priority_alert :: "u16 \<Rightarrow> ina226_status_t option" where
  "highest_priority_alert prev = find (\<lambda>s. bit prev (unat (status_value s))) alert_priority"


section \<open>Basic facts\<close>

declare wait_loop.simps [simp del]

lemma with_handle_Some:
  "inited h = 1 \<Longrightarrow> with_handle (Some h) e body = map_option (\<lambda>(res, h', e'). (res, Some h', e')) (body h)"
  by (simp add: with_handle_def)

lemma wait_loop_Inl:
  "wait_loop h i t e = Some (Inl c, e') \<Longrightarrow> c = 1"
proof (induction h i t e rule: wait_loop.induct)
  case (1 h i timeout e)
  show ?case
  proof (cases "i < timeout")
    case False
    with "1.prems" show ?thesis by (simp add: wait_loop.simps [of h i timeout e])
  next
    case True
    with "1.prems" "1.IH" show ?thesis
      by (simp add: wait_loop.simps [of h i timeout e] split: option.splits sum.splits prod.splits if_splits)
  qed
qed

lemma unat_succ_below:
  fixes i t :: u16
  assumes "i < t"
  shows "unat (i + 1) = unat i + 1" and "unat (t - 1) = unat t - 1" and "unat i < unat t"
proof -
  from assms show lt: "unat i < unat t"
    by (simp add: word_less_nat_alt)
  have "unat i + unat (1 :: u16) < 2 ^ LENGTH(16)"
    using lt unsigned_less [of t, where ?'a = nat] by simp
  then show "unat (i + 1) = unat i + 1"
    using unat_add_lem [of i 1] by simp
  from assms have "t \<noteq> 0" by auto
  then show "unat (t - 1) = unat t - 1"
    by (simp add: unat_minus_one)
qed

lemma wait_loop_exit:
  "wait_loop h i t e = Some (Inr t', e') \<Longrightarrow> unat i + unat t = 1000 \<Longrightarrow> unat i \<le> 500
     \<Longrightarrow> 500 \<le> unat t'"
proof (induction h i t e rule: wait_loop.induct)
  case (1 h i timeout e)
  have big: "500 \<le> unat timeout"
    using "1.prems" by simp
  show ?case
  proof (cases "i < timeout")
    case False
    with "1.prems" have "t' = timeout"
      by (simp add: wait_loop.simps [of h i timeout e])
    with big show ?thesis by simp
  next
    case True
    note ar = unat_succ_below [OF True]
    have sum: "unat (i + 1) + unat (timeout - 1) = 1000" and le: "unat (i + 1) \<le> 500"
      using ar "1.prems" by simp_all
    from "1.prems"(1) True show ?thesis
      using "1.IH" sum le big
      by (simp add: wait_loop.simps [of h i timeout e] split: option.splits sum.splits prod.splits if_splits)
  qed
qed

lemma wait_loop_start:
  assumes "wait_loop h 0 INA226_READ_TIMEOUT e = Some (lp, e')"
  shows "lp \<noteq> Inl 5 \<and> lp \<noteq> Inr 0"
proof (cases lp)
  case (Inl c)
  with assms wait_loop_Inl [of h 0 INA226_READ_TIMEOUT e c e'] show ?thesis
    by auto
next
  case (Inr t')
  with assms have "500 \<le> unat t'"
    using wait_loop_exit [of h 0 INA226_READ_TIMEOUT e t' e']
    by (simp add: INA226_READ_TIMEOUT_def)
  then have "t' \<noteq> 0"
    by auto
  with Inr show ?thesis
    by simp
qed

lemma wait_conversion_not_5:
  "wait_conversion h e \<noteq> Some (Inl 5, h', e')"
proof
  assume a: "wait_conversion h e = Some (Inl 5, h', e')"
  then obtain rd e1 where rd: "a_ina226_iic_read h INA226_REG_MASK e = Some (rd, e1)"
    by (auto simp: wait_conversion_def Option.bind_eq_Some_conv)
  show False
  proof (cases rd)
    case (Inl c)
    with a rd show False
      by (auto simp: wait_conversion_def Option.bind_eq_Some_conv)
  next
    case (Inr prev)
    show False
    proof (cases "prev AND push_bit 2 1 \<noteq> 0 \<or> trigger h = 0 \<or> prev AND push_bit 3 1 \<noteq> 0")
      case True
      with a rd Inr show False
        by (auto simp: wait_conversion_def Option.bind_eq_Some_conv split: if_splits)
    next
      case False
      with a rd Inr obtain lp e2 where lp: "wait_loop h 0 INA226_READ_TIMEOUT e1 = Some (lp, e2)"
        by (auto simp: wait_conversion_def Option.bind_eq_Some_conv)
      from wait_loop_start [OF lp] a rd Inr False lp show False
        by (cases lp) (auto simp: wait_conversion_def Option.bind_eq_Some_conv split: if_splits)
    qed
  qed
qed

lemma map_result_Inl:
  "map_result f x = Some (Inl c, hp, e) \<longleftrightarrow> x = Some (Inl c, hp, e)"
proof (cases x)
  case None
  then show ?thesis by (simp add: map_result_def)
next
  case (Some y)
  obtain res hp' e' where y: "y = (res, hp', e')"
    by (cases y)
  show ?thesis
    by (cases res) (simp_all add: map_result_def Some y)
qed

lemma read_body_not_5:
  assumes "with_handle hp e (\<lambda>h. do { (w, h1, e1) \<leftarrow> wait_conversion h e; body w h1 e1 }) = Some (Inl 5, hp', e')"
    and "\<And>c h1 e1. body (Inl c) h1 e1 = Some (Inl c, h1, e1)"
    and "\<And>u h1 e1 h2 e2. body (Inr u) h1 e1 \<noteq> Some (Inl 5, h2, e2)"
  shows False
proof (cases hp)
  case None
  with assms(1) show False by (simp add: with_handle_def)
next
  case (Some h)
  with assms(1) obtain w h1 e1 h2 where w: "wait_conversion h e = Some (w, h1, e1)"
    and b: "body w h1 e1 = Some (Inl 5, h2, e')"
    by (auto simp: with_handle_def Option.bind_eq_Some_conv split: if_splits)
  show False
  proof (cases w)
    case (Inl c)
    with b assms(2) have "c = 5" by simp
    with w Inl wait_conversion_not_5 [of h e h1 e1] show False by simp
  next
    case (Inr u)
    with b assms(3) [of u h1 e1 h2 e'] show False by simp
  qed
qed

lemma read_shunt_voltage_not_5:
  "ina226_read_shunt_voltage hp e \<noteq> Some (Inl 5, hp', e')"
  unfolding ina226_read_shunt_voltage_def
  by (rule notI, erule read_body_not_5) (auto simp: Option.bind_eq_Some_conv split: sum.splits)

lemma read_bus_voltage_not_5:
  "ina226_read_bus_voltage hp e \<noteq> Some (Inl 5, hp', e')"
  unfolding ina226_read_bus_voltage_def
  by (rule notI, erule read_body_not_5) (auto simp: Option.bind_eq_Some_conv split: sum.splits)

lemma read_current_not_5:
  "ina226_read_current hp e \<noteq> Some (Inl 5, hp', e')"
  unfolding ina226_read_current_def
  by (rule notI, erule read_body_not_5) (auto simp: Option.bind_eq_Some_conv split: sum.splits)

lemma read_power_not_5:
  "ina226_read_power hp e \<noteq> Some (Inl 5, hp', e')"
  unfolding ina226_read_power_def
  by (rule notI, erule read_body_not_5) (auto simp: Option.bind_eq_Some_conv split: sum.splits)

lemma read_never_times_out:
  "ina226_read q hp e \<noteq> Some (Inl 5, hp', e')"
  by (cases q)
    (simp_all add: map_result_Inl read_shunt_voltage_not_5 read_bus_voltage_not_5
      read_current_not_5 read_power_not_5)

section \<open>Bit fields of the configuration register\<close>

lemma bit_seven: "bit (7 :: int) n \<longleftrightarrow> n < 3"
proof -
  have "bit (mask 3 :: int) n \<longleftrightarrow> n < 3"
    by (auto simp: bit_mask_iff)
  moreover have "(mask 3 :: int) = 7"
    by (simp add: mask_eq_exp_minus_1)
  ultimately show ?thesis
    by simp
qed

lemma field_keep:
  fixes prev k :: u16
  shows "((prev AND NOT (push_bit s 7)) OR push_bit s (k AND 7)) AND NOT (push_bit s 7) = prev AND NOT (push_bit s 7)"
  by (rule bit_word_eqI) (auto simp: bit_simps)

lemma field_get:
  fixes prev k :: u16
  assumes "s \<le> 13"
  shows "drop_bit s ((prev AND NOT (push_bit s 7)) OR push_bit s (k AND 7)) AND 7 = k AND 7"
proof (rule bit_word_eqI)
  fix n
  assume "n < LENGTH(16)"
  have "s + n < 16" if "n < 3"
    using that assms by simp
  then show "bit (drop_bit s ((prev AND NOT (push_bit s 7)) OR push_bit s (k AND 7)) AND 7) n \<longleftrightarrow> bit (k AND 7) n"
    by (auto simp: bit_simps bit_seven)
qed

lemma avg_and7: "avg_value v AND 7 = avg_value v"
  by (cases v) simp_all

lemma avg_of_value: "avg_of (avg_value v) = v"
  by (cases v) (simp_all add: avg_of_def)

lemma ct_and7: "conversion_time_value v AND 7 = conversion_time_value v"
  by (cases v) simp_all

lemma ct_of_value: "conversion_time_of (conversion_time_value v) = v"
  by (cases v) (simp_all add: conversion_time_of_def)



lemma set_average_mode_writes:
  assumes "inited h = 1" and "a_ina226_iic_read h INA226_REG_CONF e = Some (Inr c, e1)"
  shows "ina226_set_average_mode (Some h) v e =
     map_option (\<lambda>(res, e2). (status res (), Some h, e2))
       (a_ina226_iic_write h INA226_REG_CONF ((c AND NOT (push_bit 9 7)) OR push_bit 9 (avg_value v)) e1)"
  using assms
  by (cases "a_ina226_iic_write h INA226_REG_CONF ((c AND NOT (push_bit 9 7)) OR push_bit 9 (avg_value v)) e1")
    (auto simp: ina226_set_average_mode_def with_handle_Some)

lemma get_average_mode_reads:
  assumes "inited h = 1" and "a_ina226_iic_read h INA226_REG_CONF e = Some (Inr c, e1)"
  shows "ina226_get_average_mode (Some h) e = Some (Inr (avg_of (drop_bit 9 c AND 7)), Some h, e1)"
  using assms by (simp add: ina226_get_average_mode_def with_handle_Some)

lemma set_bus_voltage_conversion_time_writes:
  assumes "inited h = 1" and "a_ina226_iic_read h INA226_REG_CONF e = Some (Inr c, e1)"
  shows "ina226_set_bus_voltage_conversion_time (Some h) t e =
     map_option (\<lambda>(res, e2). (status res (), Some h, e2))
       (a_ina226_iic_write h INA226_REG_CONF ((c AND NOT (push_bit 6 7)) OR push_bit 6 (conversion_time_value t)) e1)"
  using assms
  by (cases "a_ina226_iic_write h INA226_REG_CONF ((c AND NOT (push_bit 6 7)) OR push_bit 6 (conversion_time_value t)) e1")
    (auto simp: ina226_set_bus_voltage_conversion_time_def with_handle_Some)

lemma get_bus_voltage_conversion_time_reads:
  assumes "inited h = 1" and "a_ina226_iic_read h INA226_REG_CONF e = Some (Inr c, e1)"
  shows "ina226_get_bus_voltage_conversion_time (Some h) e =
     Some (Inr (conversion_time_of (drop_bit 6 c AND 7)), Some h, e1)"
  using assms by (simp add: ina226_get_bus_voltage_conversion_time_def with_handle_Some)

lemma set_shunt_voltage_conversion_time_writes:
  assumes "inited h = 1" and "a_ina226_iic_read h INA226_REG_CONF e = Some (Inr c, e1)"
  shows "ina226_set_shunt_voltage_conversion_time (Some h) t e =
     map_option (\<lambda>(res, e2). (status res (), Some h, e2))
       (a_ina226_iic_write h INA226_REG_CONF ((c AND NOT (push_bit 3 7)) OR push_bit 3 (conversion_time_value t)) e1)"
  using assms
  by (cases "a_ina226_iic_write h INA226_REG_CONF ((c AND NOT (push_bit 3 7)) OR push_bit 3 (conversion_time_value t)) e1")
    (auto simp: ina226_set_shunt_voltage_conversion_time_def with_handle_Some)

lemma get_shunt_voltage_conversion_time_reads:
  assumes "inited h = 1" and "a_ina226_iic_read h INA226_REG_CONF e = Some (Inr c, e1)"
  shows "ina226_get_shunt_voltage_conversion_time (Some h) e =
     Some (Inr (conversion_time_of (drop_bit 3 c AND 7)), Some h, e1)"
  using assms by (simp add: ina226_get_shunt_voltage_conversion_time_def with_handle_Some)

lemma avg_field:
  fixes c :: u16
  shows "avg_of (drop_bit 9 ((c AND NOT (push_bit 9 7)) OR push_bit 9 (avg_value v)) AND 7) = v"
    and "((c AND NOT (push_bit 9 7)) OR push_bit 9 (avg_value v)) AND NOT (push_bit 9 7) = c AND NOT (push_bit 9 7)"
  using field_get [of 9 c "avg_value v"] field_keep [of c 9 "avg_value v"]
  by (simp_all add: avg_and7 avg_of_value)

lemma conversion_time_field:
  fixes c :: u16
  assumes "s \<le> 13"
  shows "conversion_time_of (drop_bit s ((c AND NOT (push_bit s 7)) OR push_bit s (conversion_time_value t)) AND 7) = t"
    and "((c AND NOT (push_bit s 7)) OR push_bit s (conversion_time_value t)) AND NOT (push_bit s 7) = c AND NOT (push_bit s 7)"
  using field_get [OF assms, of c "conversion_time_value t"] field_keep [of c s "conversion_time_value t"]
  by (simp_all add: ct_and7 ct_of_value)


section \<open>The simulated device\<close>

lemma bytes_word:
  fixes d :: u16
  shows "push_bit 8 (ucast (ucast (drop_bit 8 d) :: u8)) OR ucast (ucast d :: u8) = d"
  by (rule bit_word_eqI) (auto simp: bit_simps)

lemma ucast_low_byte:
  fixes x :: u16
  shows "(ucast (x AND 0xFF) :: u8) = ucast x"
proof -
  have "(ucast (x AND mask 8) :: u8) = ucast x"
    by (auto intro!: bit_word_eqI simp: bit_simps)
  moreover have "(mask 8 :: u16) = 0xFF"
    by (simp add: mask_eq_exp_minus_1)
  ultimately show ?thesis
    by simp
qed

lemma bytes_word_masked:
  fixes d :: u16
  shows "push_bit 8 (ucast (ucast (drop_bit 8 d AND 0xFF) :: u8)) OR ucast (ucast (drop_bit 0 d AND 0xFF) :: u8) = d"
  using ucast_low_byte [of "drop_bit 8 d"] ucast_low_byte [of d] by (simp add: bytes_word)

lemma sim_read:
  assumes "iic_read h = Some sim_iic_read"
  shows "a_ina226_iic_read h reg w = Some (Inr (sim_register w reg), w)"
  using assms by (simp add: a_ina226_iic_read_def sim_iic_read_def bytes_word)

lemma sim_write:
  assumes "iic_write h = Some sim_iic_write"
  shows "a_ina226_iic_write h reg d w = Some (0,
     if reg = INA226_REG_CONF
     then (if bit d 15 then w\<lparr>regs := (regs w)(reg := 0x4127), busy := 0\<rparr>
           else w\<lparr>regs := (regs w)(reg := d), busy := conversion_ms w\<rparr>)
     else w\<lparr>regs := (regs w)(reg := d)\<rparr>)"
proof -
  have "push_bit 8 (ucast (ucast (drop_bit 8 d AND 0xFF) :: u8)) OR ucast (ucast (d AND 0xFF) :: u8) = d"
    using bytes_word_masked [of d] by simp
  with assms show ?thesis
    by (simp add: a_ina226_iic_write_def sim_iic_write_def Let_def)
qed


section \<open>Configuration fields: round trip without interference\<close>

text \<open>
  Claim C8. Let the configuration register hold any value \<open>c\<close>. For every averaging mode
  \<open>v\<close>, \<^verbatim>\<open>ina226_set_average_mode\<close> does nothing but write one value \<open>w\<close> to the
  configuration register, and it succeeds exactly when that write does; \<open>w\<close> agrees with \<open>c\<close>
  in every bit outside the three-bit averaging field (bits 9 to 11); and whenever the
  register reads back as \<open>w\<close>, \<^verbatim>\<open>ina226_get_average_mode\<close> returns \<open>v\<close>. The same holds for
  the bus conversion time (bits 6 to 8) and the shunt conversion time (bits 3 to 5) with
  their setters and getters, for every conversion time \<open>t\<close>.
\<close>

theorem configuration_field_round_trip:
  assumes "inited h = 1"
    and "a_ina226_iic_read h INA226_REG_CONF e = Some (Inr c, e1)"
  shows "(\<exists>w. ina226_set_average_mode (Some h) v e =
              map_option (\<lambda>(res, e2). (status res (), Some h, e2)) (a_ina226_iic_write h INA226_REG_CONF w e1)
            \<and> w AND NOT (push_bit 9 7) = c AND NOT (push_bit 9 7)
            \<and> (\<forall>e' e''. a_ina226_iic_read h INA226_REG_CONF e' = Some (Inr w, e'')
                 \<longrightarrow> ina226_get_average_mode (Some h) e' = Some (Inr v, Some h, e'')))
       \<and> (\<exists>w. ina226_set_bus_voltage_conversion_time (Some h) t e =
              map_option (\<lambda>(res, e2). (status res (), Some h, e2)) (a_ina226_iic_write h INA226_REG_CONF w e1)
            \<and> w AND NOT (push_bit 6 7) = c AND NOT (push_bit 6 7)
            \<and> (\<forall>e' e''. a_ina226_iic_read h INA226_REG_CONF e' = Some (Inr w, e'')
                 \<longrightarrow> ina226_get_bus_voltage_conversion_time (Some h) e' = Some (Inr t, Some h, e'')))
       \<and> (\<exists>w. ina226_set_shunt_voltage_conversion_time (Some h) t e =
              map_option (\<lambda>(res, e2). (status res (), Some h, e2)) (a_ina226_iic_write h INA226_REG_CONF w e1)
            \<and> w AND NOT (push_bit 3 7) = c AND NOT (push_bit 3 7)
            \<and> (\<forall>e' e''. a_ina226_iic_read h INA226_REG_CONF e' = Some (Inr w, e'')
                 \<longrightarrow> ina226_get_shunt_voltage_conversion_time (Some h) e' = Some (Inr t, Some h, e'')))"
proof (intro conjI)
  show "\<exists>w. ina226_set_average_mode (Some h) v e =
              map_option (\<lambda>(res, e2). (status res (), Some h, e2)) (a_ina226_iic_write h INA226_REG_CONF w e1)
            \<and> w AND NOT (push_bit 9 7) = c AND NOT (push_bit 9 7)
            \<and> (\<forall>e' e''. a_ina226_iic_read h INA226_REG_CONF e' = Some (Inr w, e'')
                 \<longrightarrow> ina226_get_average_mode (Some h) e' = Some (Inr v, Some h, e''))"
    using set_average_mode_writes [OF assms, of v] get_average_mode_reads [OF assms(1)]
      avg_field [of c v]
    by (intro exI [of _ "(c AND NOT (push_bit 9 7)) OR push_bit 9 (avg_value v)"]) simp
  show "\<exists>w. ina226_set_bus_voltage_conversion_time (Some h) t e =
              map_option (\<lambda>(res, e2). (status res (), Some h, e2)) (a_ina226_iic_write h INA226_REG_CONF w e1)
            \<and> w AND NOT (push_bit 6 7) = c AND NOT (push_bit 6 7)
            \<and> (\<forall>e' e''. a_ina226_iic_read h INA226_REG_CONF e' = Some (Inr w, e'')
                 \<longrightarrow> ina226_get_bus_voltage_conversion_time (Some h) e' = Some (Inr t, Some h, e''))"
    using set_bus_voltage_conversion_time_writes [OF assms, of t]
      get_bus_voltage_conversion_time_reads [OF assms(1)] conversion_time_field [of 6 c t]
    by (intro exI [of _ "(c AND NOT (push_bit 6 7)) OR push_bit 6 (conversion_time_value t)"]) simp
  show "\<exists>w. ina226_set_shunt_voltage_conversion_time (Some h) t e =
              map_option (\<lambda>(res, e2). (status res (), Some h, e2)) (a_ina226_iic_write h INA226_REG_CONF w e1)
            \<and> w AND NOT (push_bit 3 7) = c AND NOT (push_bit 3 7)
            \<and> (\<forall>e' e''. a_ina226_iic_read h INA226_REG_CONF e' = Some (Inr w, e'')
                 \<longrightarrow> ina226_get_shunt_voltage_conversion_time (Some h) e' = Some (Inr t, Some h, e''))"
    using set_shunt_voltage_conversion_time_writes [OF assms, of t]
      get_shunt_voltage_conversion_time_reads [OF assms(1)] conversion_time_field [of 3 c t]
    by (intro exI [of _ "(c AND NOT (push_bit 3 7)) OR push_bit 3 (conversion_time_value t)"]) simp
qed



theorem configuration_field_round_trip_witness:
  "inited (sim_handle\<lparr>inited := 1\<rparr>) = 1
   \<and> a_ina226_iic_read (sim_handle\<lparr>inited := 1\<rparr>) INA226_REG_CONF (sim_device 0x4127 0 0)
       = Some (Inr 0x4127, sim_device 0x4127 0 0)
   \<and> (\<exists>w. ina226_set_average_mode (Some (sim_handle\<lparr>inited := 1\<rparr>)) INA226_AVG_16 (sim_device 0x4127 0 0) =
              map_option (\<lambda>(res, e2). (status res (), Some (sim_handle\<lparr>inited := 1\<rparr>), e2))
                (a_ina226_iic_write (sim_handle\<lparr>inited := 1\<rparr>) INA226_REG_CONF w (sim_device 0x4127 0 0))
          \<and> w AND NOT (push_bit 9 7) = 0x4127 AND NOT (push_bit 9 7)
          \<and> a_ina226_iic_read (sim_handle\<lparr>inited := 1\<rparr>) INA226_REG_CONF (sim_device w 0 0)
               = Some (Inr w, sim_device w 0 0)
          \<and> ina226_get_average_mode (Some (sim_handle\<lparr>inited := 1\<rparr>)) (sim_device w 0 0)
               = Some (Inr INA226_AVG_16, Some (sim_handle\<lparr>inited := 1\<rparr>), sim_device w 0 0))"
proof -
  let ?h = "sim_handle\<lparr>inited := 1\<rparr>"
  have rd: "a_ina226_iic_read ?h INA226_REG_CONF (sim_device c 0 0) = Some (Inr c, sim_device c 0 0)" for c
    by (simp add: sim_read sim_handle_def sim_register_def sim_device_def
        INA226_REG_CONF_def INA226_REG_MASK_def INA226_REG_MANUFACTURER_def)
  have h1: "inited ?h = 1"
    by simp
  from configuration_field_round_trip [OF h1 rd [of "0x4127"], where v = INA226_AVG_16]
  obtain w where "ina226_set_average_mode (Some ?h) INA226_AVG_16 (sim_device 0x4127 0 0) =
              map_option (\<lambda>(res, e2). (status res (), Some ?h, e2))
                (a_ina226_iic_write ?h INA226_REG_CONF w (sim_device 0x4127 0 0))"
    and "w AND NOT (push_bit 9 7) = 0x4127 AND NOT (push_bit 9 7)"
    and "\<forall>e' e''. a_ina226_iic_read ?h INA226_REG_CONF e' = Some (Inr w, e'')
                 \<longrightarrow> ina226_get_average_mode (Some ?h) e' = Some (Inr INA226_AVG_16, Some ?h, e'')"
    by blast
  with h1 rd show ?thesis
    by blast
qed


section \<open>Calls seen through the log\<close>

lemma logging_fields [simp]:
  "iic_addr (logging h) = iic_addr h"
  "r (logging h) = r h"
  "current_lsb (logging h) = current_lsb h"
  "inited (logging h) = inited h"
  "trigger (logging h) = trigger h"
  by (simp_all add: logging_def)

lemma logging_trigger [simp]:
  "(logging h)\<lparr>trigger := x\<rparr> = logging (h\<lparr>trigger := x\<rparr>)"
  by (simp add: logging_def)

lemma logged_read:
  "a_ina226_iic_read (logging h) reg l =
     map_option (\<lambda>(rd, e'). (rd, log_event (Iic_read reg) e' l)) (a_ina226_iic_read h reg (world l))"
  by (cases "iic_read h")
    (auto simp: a_ina226_iic_read_def logging_def split: prod.splits)

lemma logged_write:
  "a_ina226_iic_write (logging h) reg d l =
     map_option (\<lambda>(res, e'). (res, log_event (Iic_write reg d) e' l)) (a_ina226_iic_write h reg d (world l))"
proof -
  have "push_bit 8 (ucast (ucast (drop_bit 8 d AND 0xFF) :: u8)) OR ucast (ucast (d AND 0xFF) :: u8) = d"
    using bytes_word_masked [of d] by simp
  then show ?thesis
    by (cases "iic_write h")
      (auto simp: a_ina226_iic_write_def logging_def split: prod.splits)
qed

lemma logged_debug:
  "call_debug (logging h) msg l = map_option (\<lambda>e'. log_event (Debug_print msg) e' l) (call_debug h msg (world l))"
  by (cases "debug_print h") (simp_all add: call_debug_def logging_def)

lemma logged_delay:
  "call_delay (logging h) ms l = map_option (\<lambda>e'. log_event (Delay_ms ms) e' l) (call_delay h ms (world l))"
  by (cases "delay_ms h") (simp_all add: call_delay_def logging_def)

lemma log_event_simps [simp]:
  "world (log_event ev e' l) = e'"
  "events (log_event ev e' l) = events l @ [ev]"
  by (simp_all add: log_event_def)


section \<open>The wait for conversion-ready\<close>

lemma wait_loop_never_ready:
  assumes rd: "\<And>e. I e \<Longrightarrow> \<exists>v e'. a_ina226_iic_read h INA226_REG_MASK e = Some (Inr v, e')
                  \<and> v AND push_bit 3 1 = 0 \<and> I e'"
    and dl: "\<And>e. I e \<Longrightarrow> \<exists>e'. call_delay h 1 e = Some e' \<and> I e'"
  shows "I (world l) \<Longrightarrow> unat i + unat t = 1000 \<Longrightarrow> unat i \<le> 500 \<Longrightarrow>
     \<exists>l'. wait_loop (logging h) i t l = Some (Inr 500, l') \<and> I (world l')
       \<and> events l' = events l @ concat (replicate (500 - unat i) [Iic_read INA226_REG_MASK, Delay_ms 1])"
proof (induction "500 - unat i" arbitrary: i t l)
  case 0
  then have "unat i = 500" and "unat t = 500"
    by simp_all
  then have "\<not> i < t"
    by (simp add: word_less_nat_alt)
  then have "wait_loop (logging h) i t l = Some (Inr t, l)"
    by (simp add: wait_loop.simps [of _ i t l])
  moreover have "t = of_nat (unat t)"
    by simp
  then have "t = 500"
    using \<open>unat t = 500\<close> by simp
  ultimately show ?case
    using 0 by simp
next
  case (Suc n)
  then have lt: "unat i < unat t"
    by simp
  then have "i < t"
    by (simp add: word_less_nat_alt)
  note ar = unat_succ_below [OF this]
  from rd [OF Suc.prems(1)] obtain v e1 where
    r1: "a_ina226_iic_read h INA226_REG_MASK (world l) = Some (Inr v, e1)"
    and v: "v AND push_bit 3 1 = 0" and i1: "I e1"
    by blast
  define l1 where "l1 = log_event (Iic_read INA226_REG_MASK) e1 l"
  from dl [OF i1] obtain e2 where d2: "call_delay h 1 e1 = Some e2" and i2: "I e2"
    by blast
  define l2 where "l2 = log_event (Delay_ms 1) e2 l1"
  have "n = 500 - unat (i + 1)" "I (world l2)" "unat (i + 1) + unat (t - 1) = 1000" "unat (i + 1) \<le> 500"
    using Suc.hyps(2) Suc.prems ar i2 by (simp_all add: l2_def)
  from Suc.hyps(1) [OF this] obtain l' where
    w: "wait_loop (logging h) (i + 1) (t - 1) l2 = Some (Inr 500, l')" and i': "I (world l')"
    and ev: "events l' = events l2 @ concat (replicate (500 - unat (i + 1)) [Iic_read INA226_REG_MASK, Delay_ms 1])"
    by blast
  have "wait_loop (logging h) i t l = wait_loop (logging h) (i + 1) (t - 1) l2"
    using \<open>i < t\<close> r1 v d2
    by (simp add: wait_loop.simps [of _ i t l] logged_read logged_delay l1_def l2_def)
  moreover have "500 - unat i = Suc (500 - unat (i + 1))"
    using Suc.hyps(2) ar by simp
  ultimately show ?case
    using w i' ev by (simp add: l2_def l1_def)
qed


lemma trigger_irrelevant [simp]:
  "a_ina226_iic_read (h\<lparr>trigger := x\<rparr>) reg e = a_ina226_iic_read h reg e"
  "a_ina226_iic_write (h\<lparr>trigger := x\<rparr>) reg d e = a_ina226_iic_write h reg d e"
  "call_debug (h\<lparr>trigger := x\<rparr>) msg e = call_debug h msg e"
  "call_delay (h\<lparr>trigger := x\<rparr>) ms e = call_delay h ms e"
  by (simp_all add: a_ina226_iic_read_def a_ina226_iic_write_def call_debug_def call_delay_def
      split: option.splits)

lemma wait_conversion_never_ready:
  assumes rd: "\<And>e. I e \<Longrightarrow> \<exists>v e'. a_ina226_iic_read h INA226_REG_MASK e = Some (Inr v, e')
                  \<and> v AND push_bit 2 1 = 0 \<and> v AND push_bit 3 1 = 0 \<and> I e'"
    and dl: "\<And>e. I e \<Longrightarrow> \<exists>e'. call_delay h 1 e = Some e' \<and> I e'"
    and start: "I (world l)" and armed: "trigger h \<noteq> 0"
  shows "\<exists>l'. wait_conversion (logging h) l = Some (Inr (), logging (h\<lparr>trigger := 0\<rparr>), l') \<and> I (world l')
     \<and> events l' = events l @ Iic_read INA226_REG_MASK
          # concat (replicate 500 [Iic_read INA226_REG_MASK, Delay_ms 1])"
proof -
  from rd [OF start] obtain v e1 where
    r1: "a_ina226_iic_read h INA226_REG_MASK (world l) = Some (Inr v, e1)"
    and v: "v AND push_bit 2 1 = 0" "v AND push_bit 3 1 = 0" and i1: "I e1"
    by blast
  define l1 where "l1 = log_event (Iic_read INA226_REG_MASK) e1 l"
  have rd': "\<exists>v e'. a_ina226_iic_read h INA226_REG_MASK e = Some (Inr v, e') \<and> v AND push_bit 3 1 = 0 \<and> I e'"
    if "I e" for e
    using rd [OF that] by blast
  have "I (world l1)" "unat (0 :: u16) + unat INA226_READ_TIMEOUT = 1000" "unat (0 :: u16) \<le> 500"
    using i1 by (simp_all add: l1_def INA226_READ_TIMEOUT_def)
  from wait_loop_never_ready [of I h, OF rd' dl this] obtain l' where
    w: "wait_loop (logging h) 0 INA226_READ_TIMEOUT l1 = Some (Inr 500, l')" and i': "I (world l')"
    and ev: "events l' = events l1 @ concat (replicate 500 [Iic_read INA226_REG_MASK, Delay_ms 1])"
    by auto
  have "wait_conversion (logging h) l = Some (Inr (), logging (h\<lparr>trigger := 0\<rparr>), l')"
    using r1 v armed w by (simp add: wait_conversion_def logged_read l1_def)
  with i' ev show ?thesis
    by (simp add: l1_def)
qed

lemma read_never_ready:
  assumes rd: "\<And>e. I e \<Longrightarrow> \<exists>v e'. a_ina226_iic_read h INA226_REG_MASK e = Some (Inr v, e')
                  \<and> v AND push_bit 2 1 = 0 \<and> v AND push_bit 3 1 = 0 \<and> I e'"
    and dl: "\<And>e. I e \<Longrightarrow> \<exists>e'. call_delay h 1 e = Some e' \<and> I e'"
    and rg: "\<And>e. I e \<Longrightarrow> \<exists>u e'. a_ina226_iic_read h (measurement_register q) e = Some (Inr u, e')"
    and start: "I (world l)" and armed: "trigger h \<noteq> 0" and ini: "inited h = 1"
  shows "\<exists>v l'. ina226_read q (Some (logging h)) l = Some (Inr v, Some (logging (h\<lparr>trigger := 0\<rparr>)), l')
     \<and> events l' = events l @ Iic_read INA226_REG_MASK
          # concat (replicate 500 [Iic_read INA226_REG_MASK, Delay_ms 1])
          @ [Iic_read (measurement_register q)]"
proof -
  from wait_conversion_never_ready [of I h, OF rd dl start armed] obtain l1 where
    w: "wait_conversion (logging h) l = Some (Inr (), logging (h\<lparr>trigger := 0\<rparr>), l1)" and i1: "I (world l1)"
    and ev: "events l1 = events l @ Iic_read INA226_REG_MASK
          # concat (replicate 500 [Iic_read INA226_REG_MASK, Delay_ms 1])"
    by blast
  from rg [OF i1] obtain u e2 where
    r2: "a_ina226_iic_read h (measurement_register q) (world l1) = Some (Inr u, e2)"
    by blast
  have r2': "a_ina226_iic_read (logging (h\<lparr>trigger := 0\<rparr>)) (measurement_register q) l1
      = Some (Inr u, log_event (Iic_read (measurement_register q)) e2 l1)"
    using r2 by (simp add: logged_read)
  show ?thesis
  proof (cases q)
    case Shunt_voltage
    with w r2' ini ev show ?thesis
      by (simp add: ina226_read_shunt_voltage_def with_handle_Some)
  next
    case Bus_voltage
    with w r2' ini ev show ?thesis
      by (simp add: ina226_read_bus_voltage_def with_handle_Some map_result_def)
  next
    case Current
    with w r2' ini ev show ?thesis
      by (simp add: ina226_read_current_def with_handle_Some)
  next
    case Power
    with w r2' ini ev show ?thesis
      by (simp add: ina226_read_power_def with_handle_Some map_result_def)
  qed
qed

lemma sim_delay:
  assumes "delay_ms h = Some sim_delay_ms"
  shows "call_delay h ms w = Some (w\<lparr>busy := busy w - unat ms\<rparr>)"
  using assms by (simp add: call_delay_def sim_delay_ms_def)


text \<open>
  Claim C1 says that a read with the trigger flag set, on a device whose conversion-ready
  flag stays clear, polls up to 1000 times, returns status 5 and leaves the trigger flag
  set. The code does not: the loop counts \<^verbatim>\<open>i\<close> up while it counts \<^verbatim>\<open>timeout\<close> down, so it is
  left after 500 polls with \<^verbatim>\<open>timeout\<close> at 500, and the test \<^verbatim>\<open>timeout == 0\<close> fails. On the
  simulated device that never finishes its conversion, each of the four reads polls the
  mask register 500 times, sleeping one millisecond after each poll, then clears the
  trigger flag, reads the measurement register and returns status 0. No read ever returns
  status 5 (lemma \<open>read_never_times_out\<close>).
\<close>

theorem read_timeout_not_reported:
  "\<forall>q. \<exists>v l'.
     ina226_read q (Some (logging (sim_handle\<lparr>inited := 1, trigger := 1\<rparr>)))
         (fresh ((sim_device 0x4127 0 0)\<lparr>stuck := True\<rparr>))
       = Some (Inr v, Some (logging (sim_handle\<lparr>inited := 1, trigger := 0\<rparr>)), l')
     \<and> events l' = Iic_read INA226_REG_MASK
          # concat (replicate 500 [Iic_read INA226_REG_MASK, Delay_ms 1])
          @ [Iic_read (measurement_register q)]"
proof
  fix q
  let ?h = "sim_handle\<lparr>inited := 1, trigger := 1\<rparr>"
  let ?I = "\<lambda>w. stuck w \<and> regs w INA226_REG_MASK = 0"
  have rd: "\<exists>v e'. a_ina226_iic_read ?h INA226_REG_MASK e = Some (Inr v, e')
      \<and> v AND push_bit 2 1 = 0 \<and> v AND push_bit 3 1 = 0 \<and> ?I e'" if "?I e" for e
    using that by (simp add: sim_read sim_handle_def sim_register_def)
  have dl: "\<exists>e'. call_delay ?h 1 e = Some e' \<and> ?I e'" if "?I e" for e
    using that by (simp add: sim_delay sim_handle_def)
  have rg: "\<exists>u e'. a_ina226_iic_read ?h (measurement_register q) e = Some (Inr u, e')" if "?I e" for e
    by (simp add: sim_read sim_handle_def)
  have start: "?I (world (fresh ((sim_device 0x4127 0 0)\<lparr>stuck := True\<rparr>)))"
    by (simp add: fresh_def sim_device_def INA226_REG_MASK_def INA226_REG_CONF_def
        INA226_REG_MANUFACTURER_def)
  have "trigger ?h \<noteq> 0" "inited ?h = 1"
    by simp_all
  from read_never_ready [of ?I ?h q, OF rd dl rg start this]
  show "\<exists>v l'.
     ina226_read q (Some (logging ?h)) (fresh ((sim_device 0x4127 0 0)\<lparr>stuck := True\<rparr>))
       = Some (Inr v, Some (logging (sim_handle\<lparr>inited := 1, trigger := 0\<rparr>)), l')
     \<and> events l' = Iic_read INA226_REG_MASK
          # concat (replicate 500 [Iic_read INA226_REG_MASK, Delay_ms 1])
          @ [Iic_read (measurement_register q)]"
    by (simp add: fresh_def)
qed


section \<open>Closing the chip\<close>

lemma logged_iic_deinit:
  "call_iic_deinit (logging h) l =
     map_option (\<lambda>(res, e'). (res, log_event Iic_deinit e' l)) (call_iic_deinit h (world l))"
  by (cases "iic_deinit h") (auto simp: call_iic_deinit_def logging_def split: prod.splits)

lemma logged_iic_init:
  "call_iic_init (logging h) l =
     map_option (\<lambda>(res, e'). (res, log_event Iic_init e' l)) (call_iic_init h (world l))"
  by (cases "iic_init h") (auto simp: call_iic_init_def logging_def split: prod.splits)

lemma sim_iic_deinit_call:
  assumes "iic_deinit h = Some sim_iic_deinit"
  shows "call_iic_deinit h w = Some (0, w\<lparr>bus_open := False\<rparr>)"
  using assms by (simp add: call_iic_deinit_def sim_iic_deinit_def)

lemma sim_iic_init_call:
  assumes "iic_init h = Some sim_iic_init"
  shows "call_iic_init h w = Some (0, w\<lparr>bus_open := True\<rparr>)"
  using assms by (simp add: call_iic_init_def sim_iic_init_def)

lemma with_handle_keeps:
  assumes "with_handle hp e body = Some (res, hp', e')"
    and "\<And>h res h' e'. body h = Some (res, h', e') \<Longrightarrow> h' = h"
  shows "hp' = hp"
proof (cases hp)
  case None
  with assms(1) show ?thesis by (simp add: with_handle_def)
next
  case (Some h)
  show ?thesis
  proof (cases "inited h = 1")
    case False
    with assms(1) Some show ?thesis by (simp add: with_handle_def)
  next
    case True
    with assms(1) Some obtain h' where "body h = Some (res, h', e')" and "hp' = Some h'"
      by (auto simp: with_handle_def)
    with assms(2) Some show ?thesis by blast
  qed
qed

lemma deinit_keeps_handle:
  assumes "ina226_deinit hp e = Some (res, hp', e')"
  shows "hp' = hp"
proof (rule with_handle_keeps [OF assms [unfolded ina226_deinit_def]])
  fix h res h' e'
  assume a: "do {
     (rd, e1) \<leftarrow> a_ina226_iic_read h INA226_REG_CONF e;
     case rd of
       Inl _ \<Rightarrow> do {
         e2 \<leftarrow> call_debug h ''ina226: read conf register failed.\<newline>'' e1;
         Some (Inl 4, h, e2) }
     | Inr prev \<Rightarrow> do {
         (res, e2) \<leftarrow> a_ina226_iic_write h INA226_REG_CONF (prev AND NOT 0x07) e1;
         if res \<noteq> 0 then do {
           e3 \<leftarrow> call_debug h ''ina226: write conf register failed.\<newline>'' e2;
           Some (Inl 4, h, e3) }
         else do {
           (res, e3) \<leftarrow> call_iic_deinit h e2;
           if res \<noteq> 0 then do {
             e4 \<leftarrow> call_debug h ''ina226: iic deinit failed.\<newline>'' e3;
             Some (Inl 1, h, e4) }
           else Some (Inr (), h, e3) } } } = Some (res, h', e')"
  then obtain rd e1 where "a_ina226_iic_read h INA226_REG_CONF e = Some (rd, e1)"
    by (auto simp: Option.bind_eq_Some_conv)
  with a show "h' = h"
    by (cases rd) (auto simp: Option.bind_eq_Some_conv split: if_splits)
qed

lemmas reg_defs = INA226_REG_CONF_def INA226_REG_SHUNT_VOLTAGE_def INA226_REG_BUS_VOLTAGE_def
  INA226_REG_POWER_def INA226_REG_CURRENT_def INA226_REG_CALIBRATION_def INA226_REG_MASK_def
  INA226_REG_ALERT_LIMIT_def INA226_REG_MANUFACTURER_def INA226_REG_DIE_def


text \<open>
  Claim C2 says that a successful \<^verbatim>\<open>ina226_deinit\<close> commands power-down, closes the
  transport and returns the handle to the uninitialized state, so that a later register
  operation fails with status 3. The code does the first two and not the third: no path
  of \<^verbatim>\<open>ina226_deinit\<close> changes the handle (lemma \<open>deinit_keeps_handle\<close>), so \<^verbatim>\<open>inited\<close> stays 1.
  On the simulated device, \<^verbatim>\<open>ina226_deinit\<close> returns 0 after it has written the
  configuration register with the mode bits cleared and closed the bus; the handle is
  still marked initialized, and \<^verbatim>\<open>ina226_get_mode\<close> called next returns 0 with the mode
  power-down, not status 3.
\<close>

theorem deinit_leaves_handle_initialized:
  "\<exists>l1 l2.
     ina226_deinit (Some (logging (sim_handle\<lparr>inited := 1\<rparr>))) (fresh (sim_device 0x4127 0 0))
       = Some (Inr (), Some (logging (sim_handle\<lparr>inited := 1\<rparr>)), l1)
     \<and> events l1 = [Iic_read INA226_REG_CONF, Iic_write INA226_REG_CONF 0x4120, Iic_deinit]
     \<and> \<not> bus_open (world l1)
     \<and> inited (logging (sim_handle\<lparr>inited := 1\<rparr>)) = 1
     \<and> ina226_get_mode (Some (logging (sim_handle\<lparr>inited := 1\<rparr>))) l1
       = Some (Inr INA226_MODE_POWER_DOWN, Some (logging (sim_handle\<lparr>inited := 1\<rparr>)), l2)"
  by (simp add: ina226_deinit_def ina226_get_mode_def with_handle_Some logged_read logged_write
      logged_iic_deinit logged_debug sim_read sim_write sim_iic_deinit_call sim_handle_def
      sim_register_def sim_device_def fresh_def reg_defs mode_of_def)


section \<open>The trigger flag\<close>

lemma map_result_with_handle:
  "map_result f (with_handle hp e body) =
     with_handle hp e (\<lambda>h. map_option (\<lambda>(res, h', e'). (map_sum id f res, h', e')) (body h))"
  by (cases hp) (auto simp: map_result_def with_handle_def option.map_comp comp_def split: prod.splits intro!: option.map_cong)

lemma ina226_read_eq:
  "ina226_read q hp e = with_handle hp e (\<lambda>h. read_register q (wait_conversion h e))"
proof (cases q)
  case Shunt_voltage
  have "do {
       (w, h1, e1) \<leftarrow> wait_conversion h e;
       case w of
         Inl c \<Rightarrow> Some (Inl c, h1, e1)
       | Inr _ \<Rightarrow> do {
           (rd, e2) \<leftarrow> a_ina226_iic_read h1 INA226_REG_SHUNT_VOLTAGE e1;
           case rd of
             Inl _ \<Rightarrow> do {
               e3 \<leftarrow> call_debug h1 ''ina226: read shunt voltage register failed.\<newline>'' e2;
               Some (Inl 1, h1, e3) }
           | Inr u \<Rightarrow> Some (Inr (sint u, f32 (of_int (sint u) / 400)), h1, e2) } }
     = read_register Shunt_voltage (wait_conversion h e)" for h :: "'a ina226_handle"
    by (auto simp: read_register_def split: Option.bind_splits sum.splits)
  with Shunt_voltage show ?thesis
    by (simp add: ina226_read_shunt_voltage_def)
next
  case Bus_voltage
  have "map_option (\<lambda>(res, h', e'). (map_sum id (\<lambda>(raw, mV). (uint raw, mV)) res, h', e'))
     (do {
       (w, h1, e1) \<leftarrow> wait_conversion h e;
       case w of
         Inl c \<Rightarrow> Some (Inl c, h1, e1)
       | Inr _ \<Rightarrow> do {
           (rd, e2) \<leftarrow> a_ina226_iic_read h1 INA226_REG_BUS_VOLTAGE e1;
           case rd of
             Inl _ \<Rightarrow> do {
               e3 \<leftarrow> call_debug h1 ''ina226: read bus voltage register failed.\<newline>'' e2;
               Some (Inl 1, h1, e3) }
           | Inr raw \<Rightarrow> Some (Inr (raw, f32 (of_nat (unat raw) * (5/4))), h1, e2) } })
     = read_register Bus_voltage (wait_conversion h e)" for h :: "'a ina226_handle"
    by (auto simp: read_register_def split: Option.bind_splits sum.splits)
  with Bus_voltage show ?thesis
    by (simp add: ina226_read_bus_voltage_def map_result_with_handle)
next
  case Current
  have "do {
       (w, h1, e1) \<leftarrow> wait_conversion h e;
       case w of
         Inl c \<Rightarrow> Some (Inl c, h1, e1)
       | Inr _ \<Rightarrow> do {
           (rd, e2) \<leftarrow> a_ina226_iic_read h1 INA226_REG_CURRENT e1;
           case rd of
             Inl _ \<Rightarrow> do {
               e3 \<leftarrow> call_debug h1 ''ina226: read current register failed.\<newline>'' e2;
               Some (Inl 1, h1, e3) }
           | Inr u \<Rightarrow>
               Some (Inr (sint u, f32 (f64 (f64 (of_int (sint u) * current_lsb h1) * 1000))), h1, e2) } }
     = read_register Current (wait_conversion h e)" for h :: "'a ina226_handle"
    by (auto simp: read_register_def split: Option.bind_splits sum.splits)
  with Current show ?thesis
    by (simp add: ina226_read_current_def)
next
  case Power
  have "map_option (\<lambda>(res, h', e'). (map_sum id (\<lambda>(raw, mW). (uint raw, mW)) res, h', e'))
     (do {
       (w, h1, e1) \<leftarrow> wait_conversion h e;
       case w of
         Inl c \<Rightarrow> Some (Inl c, h1, e1)
       | Inr _ \<Rightarrow> do {
           (rd, e2) \<leftarrow> a_ina226_iic_read h1 INA226_REG_POWER e1;
           case rd of
             Inl _ \<Rightarrow> do {
               e3 \<leftarrow> call_debug h1 ''ina226: read power register failed.\<newline>'' e2;
               Some (Inl 1, h1, e3) }
           | Inr raw \<Rightarrow>
               Some (Inr (raw, f32 (f64 (f64 (f64 (of_nat (unat raw) * current_lsb h1) * 25) * 1000))),
                     h1, e2) } })
     = read_register Power (wait_conversion h e)" for h :: "'a ina226_handle"
    by (auto simp: read_register_def split: Option.bind_splits sum.splits)
  with Power show ?thesis
    by (simp add: ina226_read_power_def map_result_with_handle)
qed


lemma trigger_same:
  "trigger h = x \<Longrightarrow> h\<lparr>trigger := x\<rparr> = h"
  by (cases h) auto

lemma wait_conversion_handle:
  assumes "wait_conversion h e = Some (w, h', e')"
  shows "case w of Inl _ \<Rightarrow> h' = h | Inr _ \<Rightarrow> h' = h\<lparr>trigger := 0\<rparr>"
proof -
  from assms obtain rd e1 where rd: "a_ina226_iic_read h INA226_REG_MASK e = Some (rd, e1)"
    by (auto simp: wait_conversion_def Option.bind_eq_Some_conv)
  show ?thesis
  proof (cases rd)
    case (Inl c)
    with assms rd show ?thesis
      by (auto simp: wait_conversion_def Option.bind_eq_Some_conv)
  next
    case (Inr prev)
    show ?thesis
    proof (cases "prev AND push_bit 2 1 \<noteq> 0 \<or> trigger h = 0 \<or> prev AND push_bit 3 1 \<noteq> 0")
      case True
      with assms rd Inr show ?thesis
        by (auto simp: wait_conversion_def Option.bind_eq_Some_conv trigger_same split: if_splits)
    next
      case False
      with assms rd Inr obtain lp e2 where lp: "wait_loop h 0 INA226_READ_TIMEOUT e1 = Some (lp, e2)"
        by (auto simp: wait_conversion_def Option.bind_eq_Some_conv)
      from assms rd Inr False lp show ?thesis
        by (cases lp) (auto simp: wait_conversion_def Option.bind_eq_Some_conv split: if_splits)
    qed
  qed
qed

lemma read_register_outcome:
  assumes "read_register q (Some (w, h1, e1)) = Some (res, h', e')"
  shows "h' = h1" and "\<And>v. res = Inr v \<Longrightarrow> \<exists>u. w = Inr u"
proof -
  show "h' = h1"
  proof (cases w)
    case (Inl c)
    with assms show ?thesis by (simp add: read_register_def)
  next
    case (Inr u)
    with assms obtain rd e2 where "a_ina226_iic_read h1 (measurement_register q) e1 = Some (rd, e2)"
      by (auto simp: read_register_def Option.bind_eq_Some_conv)
    with assms Inr show ?thesis
      by (cases rd) (auto simp: read_register_def Option.bind_eq_Some_conv)
  qed
  show "\<exists>u. w = Inr u" if "res = Inr v" for v
    using assms that by (cases w) (simp_all add: read_register_def)
qed

lemma read_outcome:
  assumes "ina226_read q (Some h) e = Some (res, hp', e')"
  shows "hp' = Some h \<or> hp' = Some (h\<lparr>trigger := 0\<rparr>)"
    and "\<And>v. res = Inr v \<Longrightarrow> hp' = Some (h\<lparr>trigger := 0\<rparr>) \<and> inited h = 1"
proof -
  have *: "(hp' = Some h \<or> hp' = Some (h\<lparr>trigger := 0\<rparr>))
      \<and> (\<forall>v. res = Inr v \<longrightarrow> hp' = Some (h\<lparr>trigger := 0\<rparr>) \<and> inited h = 1)"
  proof (cases "inited h = 1")
    case False
    with assms show ?thesis
      by (auto simp: ina226_read_eq with_handle_def)
  next
    case True
    with assms obtain h' where rr: "read_register q (wait_conversion h e) = Some (res, h', e')"
      and hp': "hp' = Some h'"
      by (auto simp: ina226_read_eq with_handle_def)
    then obtain w h1 e1 where w: "wait_conversion h e = Some (w, h1, e1)"
      by (cases "wait_conversion h e") (auto simp: read_register_def)
    from rr w have "h' = h1" and suc: "\<And>v. res = Inr v \<Longrightarrow> \<exists>u. w = Inr u"
      using read_register_outcome [of q w h1 e1 res h' e'] by simp_all
    with wait_conversion_handle [OF w] hp' True show ?thesis
      by (cases w) auto
  qed
  from * show "hp' = Some h \<or> hp' = Some (h\<lparr>trigger := 0\<rparr>)"
    by blast
  from * show "hp' = Some (h\<lparr>trigger := 0\<rparr>) \<and> inited h = 1" if "res = Inr v" for v
    using that by blast
qed

lemma set_mode_outcome:
  assumes "ina226_set_mode (Some h) m e = Some (res, hp', e')"
  shows "case res of Inl _ \<Rightarrow> hp' = Some h
     | Inr _ \<Rightarrow> hp' = Some (h\<lparr>trigger := if triggered_mode m then 1 else 0\<rparr>) \<and> inited h = 1"
proof (cases "inited h = 1")
  case False
  with assms show ?thesis
    by (auto simp: ina226_set_mode_def with_handle_def)
next
  case True
  with assms obtain rd e1 where rd: "a_ina226_iic_read h INA226_REG_CONF e = Some (rd, e1)"
    by (auto simp: ina226_set_mode_def with_handle_def Option.bind_eq_Some_conv)
  show ?thesis
  proof (cases rd)
    case (Inl c)
    with assms rd True show ?thesis
      by (auto simp: ina226_set_mode_def with_handle_def Option.bind_eq_Some_conv)
  next
    case (Inr prev)
    with assms rd True show ?thesis
      by (auto simp: ina226_set_mode_def with_handle_def Option.bind_eq_Some_conv triggered_mode_def
          split: if_splits)
  qed
qed

lemma set_mode_events:
  assumes "ina226_set_mode (Some (logging h)) m l = Some (Inr u, hp', l')"
  shows "\<exists>w. events l' = events l @ [Iic_read INA226_REG_CONF, Iic_write INA226_REG_CONF w]"
proof -
  from set_mode_outcome [OF assms] have ini: "inited (logging h) = 1"
    by simp
  with assms obtain rd e1 where rd: "a_ina226_iic_read (logging h) INA226_REG_CONF l = Some (rd, e1)"
    by (auto simp: ina226_set_mode_def with_handle_def Option.bind_eq_Some_conv)
  show ?thesis
  proof (cases rd)
    case (Inl c)
    with assms rd ini show ?thesis
      by (auto simp: ina226_set_mode_def with_handle_def Option.bind_eq_Some_conv)
  next
    case (Inr prev)
    with assms rd ini show ?thesis
      by (auto simp: ina226_set_mode_def with_handle_def Option.bind_eq_Some_conv
          logged_read logged_write split: if_splits)
  qed
qed


lemma case_sum_eq_Some:
  "(case a of Inl x \<Rightarrow> f x | Inr y \<Rightarrow> g y) = Some z
     \<longleftrightarrow> (\<exists>x. a = Inl x \<and> f x = Some z) \<or> (\<exists>y. a = Inr y \<and> g y = Some z)"
  by (cases a) simp_all

lemma init_abort_not_Inr:
  "init_abort h msg code e = Some (Inr u, h', e') \<longleftrightarrow> False"
  by (auto simp: init_abort_def Option.bind_eq_Some_conv)

lemma missing_link_not_Inr:
  "missing_link h msg e = Some (Inr u, h', e') \<longleftrightarrow> False"
  by (auto simp: missing_link_def Option.bind_eq_Some_conv)

lemma init_outcome:
  assumes "ina226_init (Some h0) e0 = Some (Inr u, Some h, e)"
  shows "h = h0\<lparr>trigger := 0, inited := 1\<rparr>"
  using assms
  by (auto simp: ina226_init_def Option.bind_eq_Some_conv init_abort_not_Inr missing_link_not_Inr
      case_sum_eq_Some split: if_splits)

lemma step_trigger:
  assumes "step (h, e, c) x = Some (h', e', c')"
    and "trigger h \<noteq> 0 \<longrightarrow> (\<exists>m. c = Some m \<and> triggered_mode m)"
  shows "trigger h' \<noteq> 0 \<longrightarrow> (\<exists>m. c' = Some m \<and> triggered_mode m)"
proof (cases x)
  case (Set_mode m)
  with assms(1) obtain res hp e1 where sm: "ina226_set_mode (Some h) m e = Some (res, hp, e1)"
    by (cases "ina226_set_mode (Some h) m e") auto
  show ?thesis
  proof (cases res)
    case (Inl code)
    with set_mode_outcome [OF sm] have "hp = Some h"
      by simp
    with assms Set_mode sm Inl show ?thesis
      by auto
  next
    case (Inr u)
    with set_mode_outcome [OF sm] have "hp = Some (h\<lparr>trigger := if triggered_mode m then 1 else 0\<rparr>)"
      by simp
    with assms(1) Set_mode sm Inr show ?thesis
      by (auto split: if_splits)
  qed
next
  case (Read q)
  with assms(1) obtain res hp e1 where rd: "ina226_read q (Some h) e = Some (res, hp, e1)"
    by (cases "ina226_read q (Some h) e") auto
  from read_outcome(1) [OF rd] assms Read rd show ?thesis
    by auto
qed

lemma run_trigger:
  "run s ops = Some (h', e', c') \<Longrightarrow>
     (trigger (fst s) \<noteq> 0 \<longrightarrow> (\<exists>m. snd (snd s) = Some m \<and> triggered_mode m)) \<Longrightarrow>
     trigger h' \<noteq> 0 \<longrightarrow> (\<exists>m. c' = Some m \<and> triggered_mode m)"
proof (induction ops arbitrary: s)
  case Nil
  then show ?case by auto
next
  case (Cons x xs)
  obtain h e c where s: "s = (h, e, c)"
    by (cases s)
  from Cons.prems(1) obtain s1 where s1: "step s x = Some s1" and r: "run s1 xs = Some (h', e', c')"
    by (cases "step s x") auto
  obtain h1 e1 c1 where s1': "s1 = (h1, e1, c1)"
    by (cases s1)
  from step_trigger [of h e c x h1 e1 c1] s1 s s1' Cons.prems(2)
  have "trigger h1 \<noteq> 0 \<longrightarrow> (\<exists>m. c1 = Some m \<and> triggered_mode m)"
    by simp
  with Cons.IH [OF r] s1' show ?case
    by simp
qed



lemma sim_init:
  assumes "regs w INA226_REG_MANUFACTURER = 0x5449"
  shows "ina226_init (Some sim_handle) w =
     Some (Inr (), Some (sim_handle\<lparr>trigger := 0, inited := 1\<rparr>),
           w\<lparr>regs := (regs w)(INA226_REG_CONF := 0x4127), busy := 0, bus_open := True\<rparr>)"
proof -
  have "bit (x OR push_bit 15 1 :: u16) 15" for x
    by (simp add: bit_simps)
  with assms show ?thesis
    by (simp add: ina226_init_def sim_read sim_write sim_delay sim_iic_init_call
        sim_handle_def sim_register_def reg_defs)
qed

lemma sim_set_mode:
  assumes "iic_read h = Some sim_iic_read" "iic_write h = Some sim_iic_write" "inited h = 1"
    and "\<not> bit (regs w INA226_REG_CONF) 15"
  shows "ina226_set_mode (Some h) m w =
     Some (Inr (), Some (h\<lparr>trigger := if triggered_mode m then 1 else 0\<rparr>),
           w\<lparr>regs := (regs w)(INA226_REG_CONF := (regs w INA226_REG_CONF AND NOT 7) OR mode_value m),
             busy := conversion_ms w\<rparr>)"
proof -
  have "\<not> bit ((regs w INA226_REG_CONF AND NOT 7) OR mode_value m) 15"
    using assms(4) by (cases m) (simp_all add: bit_simps)
  with assms(1-3) show ?thesis
    by (simp add: ina226_set_mode_def with_handle_Some sim_read sim_write sim_register_def
        reg_defs triggered_mode_def)
qed



text \<open>
  Claim C3. A successful \<^verbatim>\<open>ina226_set_mode\<close> changes nothing in the handle but the trigger
  flag, which it sets to 1 when the mode is one of the three triggered modes and to 0
  otherwise, and it calls no capability beyond one read and one write of the configuration
  register. Consequently, in every state that a run of mode settings and measurement reads
  reaches from a handle that \<^verbatim>\<open>ina226_init\<close> has just initialized, the trigger flag is set
  only while the configured mode is a triggered one: never while it is continuous,
  power-down or shutdown, nor while the device still has the configuration of its reset.
\<close>

theorem set_mode_trigger_invariant:
  "(\<forall>h m l u hp' l'. ina226_set_mode (Some (logging h)) m l = Some (Inr u, hp', l') \<longrightarrow>
       hp' = Some (logging (h\<lparr>trigger := if triggered_mode m then 1 else 0\<rparr>))
       \<and> (\<exists>w. events l' = events l @ [Iic_read INA226_REG_CONF, Iic_write INA226_REG_CONF w]))
   \<and> (\<forall>h0 e0 u h e ops h' e' c. ina226_init (Some h0) e0 = Some (Inr u, Some h, e) \<longrightarrow>
        run (h, e, None) ops = Some (h', e', c) \<longrightarrow>
        trigger h' \<noteq> 0 \<longrightarrow> (\<exists>m. c = Some m \<and> triggered_mode m))"
proof (intro conjI allI impI)
  fix h :: "'a ina226_handle" and m l u hp' l'
  assume a: "ina226_set_mode (Some (logging h)) m l = Some (Inr u, hp', l')"
  from set_mode_outcome [OF a]
  show "hp' = Some (logging (h\<lparr>trigger := if triggered_mode m then 1 else 0\<rparr>))"
    by simp
  from set_mode_events [OF a]
  show "\<exists>w. events l' = events l @ [Iic_read INA226_REG_CONF, Iic_write INA226_REG_CONF w]" .
next
  fix h0 h h' :: "'b ina226_handle" and e0 e e' u ops c
  assume i: "ina226_init (Some h0) e0 = Some (Inr u, Some h, e)"
    and r: "run (h, e, None) ops = Some (h', e', c)"
    and t: "trigger h' \<noteq> 0"
  from init_outcome [OF i] have "trigger h = 0"
    by simp
  with run_trigger [OF r] t show "\<exists>m. c = Some m \<and> triggered_mode m"
    by simp
qed


theorem set_mode_trigger_invariant_witness:
  "\<exists>hp' l' h e h' e'.
     ina226_set_mode (Some (logging (sim_handle\<lparr>inited := 1\<rparr>))) INA226_MODE_SHUNT_BUS_VOLTAGE_TRIGGERED
         (fresh (sim_device 0x4127 0 3)) = Some (Inr (), hp', l')
     \<and> hp' = Some (logging (sim_handle\<lparr>inited := 1, trigger := 1\<rparr>))
     \<and> (\<exists>w. events l' = [Iic_read INA226_REG_CONF, Iic_write INA226_REG_CONF w])
     \<and> ina226_init (Some sim_handle) (sim_device 0x4127 0 3) = Some (Inr (), Some h, e)
     \<and> run (h, e, None) [Set_mode INA226_MODE_SHUNT_BUS_VOLTAGE_TRIGGERED, Set_mode INA226_MODE_POWER_DOWN,
          Set_mode INA226_MODE_BUS_VOLTAGE_TRIGGERED]
         = Some (h', e', Some INA226_MODE_BUS_VOLTAGE_TRIGGERED)
     \<and> trigger h' \<noteq> 0
     \<and> (\<exists>m. Some INA226_MODE_BUS_VOLTAGE_TRIGGERED = Some m \<and> triggered_mode m)"
proof -
  let ?T = INA226_MODE_SHUNT_BUS_VOLTAGE_TRIGGERED
  let ?ops = "[Set_mode ?T, Set_mode INA226_MODE_POWER_DOWN, Set_mode INA226_MODE_BUS_VOLTAGE_TRIGGERED]"
  have "\<exists>hp' l'. ina226_set_mode (Some (logging (sim_handle\<lparr>inited := 1\<rparr>))) ?T
         (fresh (sim_device 0x4127 0 3)) = Some (Inr (), hp', l')"
    by (simp add: ina226_set_mode_def with_handle_Some logged_read logged_write sim_read sim_write
        sim_handle_def sim_register_def sim_device_def fresh_def reg_defs)
  then obtain hp' l' where sm: "ina226_set_mode (Some (logging (sim_handle\<lparr>inited := 1\<rparr>))) ?T
         (fresh (sim_device 0x4127 0 3)) = Some (Inr (), hp', l')"
    by blast
  have ini: "ina226_init (Some sim_handle) (sim_device 0x4127 0 3)
      = Some (Inr (), Some (sim_handle\<lparr>trigger := 0, inited := 1\<rparr>),
          (sim_device 0x4127 0 3)\<lparr>regs := (regs (sim_device 0x4127 0 3))(INA226_REG_CONF := 0x4127),
             busy := 0, bus_open := True\<rparr>)"
    by (rule sim_init) (simp add: sim_device_def reg_defs)
  have "\<exists>h' e'. run (sim_handle\<lparr>trigger := 0, inited := 1\<rparr>,
          (sim_device 0x4127 0 3)\<lparr>regs := (regs (sim_device 0x4127 0 3))(INA226_REG_CONF := 0x4127),
             busy := 0, bus_open := True\<rparr>, None) ?ops
        = Some (h', e', Some INA226_MODE_BUS_VOLTAGE_TRIGGERED) \<and> trigger h' \<noteq> 0"
    by (simp add: sim_set_mode sim_handle_def triggered_mode_def sim_device_def reg_defs)
  then obtain h' e' where rn: "run (sim_handle\<lparr>trigger := 0, inited := 1\<rparr>,
          (sim_device 0x4127 0 3)\<lparr>regs := (regs (sim_device 0x4127 0 3))(INA226_REG_CONF := 0x4127),
             busy := 0, bus_open := True\<rparr>, None) ?ops
        = Some (h', e', Some INA226_MODE_BUS_VOLTAGE_TRIGGERED)" and tr: "trigger h' \<noteq> 0"
    by blast
  from set_mode_trigger_invariant [THEN conjunct1, rule_format, OF sm]
  have p1: "hp' = Some (logging (sim_handle\<lparr>inited := 1, trigger := 1\<rparr>))"
    and p2: "\<exists>w. events l' = [Iic_read INA226_REG_CONF, Iic_write INA226_REG_CONF w]"
    by (simp_all add: triggered_mode_def fresh_def)
  from set_mode_trigger_invariant [THEN conjunct2, rule_format, OF ini rn tr]
  have p3: "\<exists>m. Some INA226_MODE_BUS_VOLTAGE_TRIGGERED = Some m \<and> triggered_mode m" .
  from sm p1 p2 ini rn tr p3 show ?thesis
    by blast
qed


section \<open>Reads after a trigger\<close>

lemma wait_conversion_untriggered:
  assumes "trigger h = 0" and "wait_conversion (logging h) l = Some (w, h', l')"
  shows "h' = logging h \<and> (\<exists>rest. events l' = events l @ Iic_read INA226_REG_MASK # rest
     \<and> filter (\<lambda>ev. is_delay ev \<or> ev = Iic_read INA226_REG_MASK) rest = []
     \<and> (\<forall>u. w = Inr u \<longrightarrow> rest = []))"
proof -
  from assms(2) obtain rd e1 where rd: "a_ina226_iic_read h INA226_REG_MASK (world l) = Some (rd, e1)"
    by (auto simp: wait_conversion_def Option.bind_eq_Some_conv logged_read)
  show ?thesis
  proof (cases rd)
    case (Inl c)
    with assms rd show ?thesis
      by (auto simp: wait_conversion_def Option.bind_eq_Some_conv logged_read logged_debug)
  next
    case (Inr prev)
    with assms rd show ?thesis
      by (auto simp: wait_conversion_def Option.bind_eq_Some_conv logged_read logged_debug
          split: if_splits)
  qed
qed

lemma read_untriggered:
  assumes "trigger h = 0" and "inited h = 1"
    and "ina226_read q (Some (logging h)) l = Some (res, hp', l')"
  shows "hp' = Some (logging h) \<and> (\<exists>rest. events l' = events l @ Iic_read INA226_REG_MASK # rest
     \<and> filter (\<lambda>ev. is_delay ev \<or> ev = Iic_read INA226_REG_MASK) rest = []
     \<and> (\<forall>v. res = Inr v \<longrightarrow> rest = [Iic_read (measurement_register q)]))"
proof -
  from assms(2,3) obtain h' where rr: "read_register q (wait_conversion (logging h) l) = Some (res, h', l')"
    and hp': "hp' = Some h'"
    by (auto simp: ina226_read_eq with_handle_def)
  then obtain w h1 l1 where w: "wait_conversion (logging h) l = Some (w, h1, l1)"
    by (cases "wait_conversion (logging h) l") (auto simp: read_register_def)
  from wait_conversion_untriggered [OF assms(1) w] obtain rest where
    h1: "h1 = logging h" and ev: "events l1 = events l @ Iic_read INA226_REG_MASK # rest"
    and nd: "filter (\<lambda>ev. is_delay ev \<or> ev = Iic_read INA226_REG_MASK) rest = []"
    and ok: "\<And>u. w = Inr u \<Longrightarrow> rest = []"
    by blast
  have ne: "measurement_register q \<noteq> INA226_REG_MASK"
    by (cases q) (simp_all add: reg_defs)
  show ?thesis
  proof (cases w)
    case (Inl c)
    with rr w hp' h1 ev nd show ?thesis
      by (auto simp: read_register_def)
  next
    case (Inr u)
    with rr w obtain rd e2 where
      rd: "a_ina226_iic_read h (measurement_register q) (world l1) = Some (rd, e2)"
      by (auto simp: read_register_def Option.bind_eq_Some_conv logged_read h1)
    from Inr ok have "rest = []"
      by simp
    with rr w hp' h1 ev Inr rd ne show ?thesis
      by (cases rd) (auto simp: read_register_def Option.bind_eq_Some_conv logged_read logged_debug)
  qed
qed


lemmas sim_eval = with_handle_Some logged_read logged_write logged_delay logged_debug
  sim_read sim_write sim_delay sim_handle_def sim_register_def sim_device_def fresh_def reg_defs
  log_event_def INA226_READ_TIMEOUT_def

lemma sim_triggered_run:
  "\<exists>l1 v1 l2 v2 l3.
     ina226_set_mode (Some (logging (sim_handle\<lparr>inited := 1\<rparr>))) INA226_MODE_SHUNT_BUS_VOLTAGE_TRIGGERED
         (fresh (sim_device 0x4127 0 3))
       = Some (Inr (), Some (logging (sim_handle\<lparr>inited := 1, trigger := 1\<rparr>)), l1)
     \<and> ina226_read Bus_voltage (Some (logging (sim_handle\<lparr>inited := 1, trigger := 1\<rparr>))) l1
       = Some (Inr v1, Some (logging (sim_handle\<lparr>inited := 1, trigger := 0\<rparr>)), l2)
     \<and> events l2 = [Iic_read INA226_REG_CONF, Iic_write INA226_REG_CONF 0x4123,
          Iic_read INA226_REG_MASK,
          Iic_read INA226_REG_MASK, Delay_ms 1,
          Iic_read INA226_REG_MASK, Delay_ms 1,
          Iic_read INA226_REG_MASK, Delay_ms 1,
          Iic_read INA226_REG_MASK,
          Iic_read INA226_REG_BUS_VOLTAGE]
     \<and> ina226_read Current (Some (logging (sim_handle\<lparr>inited := 1, trigger := 0\<rparr>))) l2
       = Some (Inr v2, Some (logging (sim_handle\<lparr>inited := 1, trigger := 0\<rparr>)), l3)
     \<and> events l3 = events l2 @ [Iic_read INA226_REG_MASK, Iic_read INA226_REG_CURRENT]"
  by (simp add: ina226_set_mode_def ina226_read_eq read_register_def wait_conversion_def
      wait_loop.simps sim_eval)



text \<open>
  Claim C4. Let \<^verbatim>\<open>ina226_set_mode\<close> have selected a triggered mode with success. Then the
  trigger flag is 1. A measurement read that succeeds next leaves the flag 0. Whichever
  measurement read is called after that finds the flag 0 and leaves the handle as it is; it
  reads the mask register once, for the overflow check, and neither reads it again nor
  calls \<^verbatim>\<open>delay_ms\<close>; when it succeeds, the one other call it makes is the read of its
  measurement register.
\<close>

theorem triggered_read_sequence:
  assumes "ina226_set_mode (Some (logging h)) m l0 = Some (Inr u, Some h1, l1)"
    and "triggered_mode m"
    and "ina226_read q1 (Some h1) l1 = Some (Inr v1, Some h2, l2)"
    and "ina226_read q2 (Some h2) l2 = Some (res, hp3, l3)"
  shows "trigger h1 = 1 \<and> trigger h2 = 0 \<and> hp3 = Some h2
     \<and> (\<exists>rest. events l3 = events l2 @ Iic_read INA226_REG_MASK # rest
          \<and> filter (\<lambda>ev. is_delay ev \<or> ev = Iic_read INA226_REG_MASK) rest = []
          \<and> (\<forall>v. res = Inr v \<longrightarrow> rest = [Iic_read (measurement_register q2)]))"
proof -
  from set_mode_outcome [OF assms(1)] assms(2)
  have h1: "h1 = logging (h\<lparr>trigger := 1\<rparr>)" and ini: "inited h = 1"
    by simp_all
  from read_outcome(2) [OF assms(3)] h1
  have h2: "h2 = logging (h\<lparr>trigger := 0\<rparr>)"
    by simp
  have "trigger (h\<lparr>trigger := 0\<rparr>) = 0" "inited (h\<lparr>trigger := 0\<rparr>) = 1"
    using ini by simp_all
  from read_untriggered [OF this assms(4) [unfolded h2]] h1 h2 show ?thesis
    by simp
qed



theorem triggered_read_sequence_witness:
  "\<exists>l1 v1 l2 v2 l3.
     ina226_set_mode (Some (logging (sim_handle\<lparr>inited := 1\<rparr>))) INA226_MODE_SHUNT_BUS_VOLTAGE_TRIGGERED
         (fresh (sim_device 0x4127 0 3))
       = Some (Inr (), Some (logging (sim_handle\<lparr>inited := 1, trigger := 1\<rparr>)), l1)
     \<and> triggered_mode INA226_MODE_SHUNT_BUS_VOLTAGE_TRIGGERED
     \<and> ina226_read Bus_voltage (Some (logging (sim_handle\<lparr>inited := 1, trigger := 1\<rparr>))) l1
       = Some (Inr v1, Some (logging (sim_handle\<lparr>inited := 1, trigger := 0\<rparr>)), l2)
     \<and> ina226_read Current (Some (logging (sim_handle\<lparr>inited := 1, trigger := 0\<rparr>))) l2
       = Some (Inr v2, Some (logging (sim_handle\<lparr>inited := 1, trigger := 0\<rparr>)), l3)
     \<and> trigger (logging (sim_handle\<lparr>inited := 1, trigger := 1\<rparr>)) = 1
     \<and> trigger (logging (sim_handle\<lparr>inited := 1, trigger := 0\<rparr>)) = 0
     \<and> length (filter is_delay (events l2)) = 3
     \<and> events l3 = events l2 @ [Iic_read INA226_REG_MASK, Iic_read (measurement_register Current)]"
proof -
  let ?T = INA226_MODE_SHUNT_BUS_VOLTAGE_TRIGGERED
  let ?h1 = "logging (sim_handle\<lparr>inited := 1, trigger := 1\<rparr>)"
  let ?h2 = "logging (sim_handle\<lparr>inited := 1, trigger := 0\<rparr>)"
  from sim_triggered_run obtain l1 v1 l2 v2 l3 where
    sm: "ina226_set_mode (Some (logging (sim_handle\<lparr>inited := 1\<rparr>))) ?T (fresh (sim_device 0x4127 0 3))
       = Some (Inr (), Some ?h1, l1)"
    and r1: "ina226_read Bus_voltage (Some ?h1) l1 = Some (Inr v1, Some ?h2, l2)"
    and e2: "events l2 = [Iic_read INA226_REG_CONF, Iic_write INA226_REG_CONF 0x4123,
          Iic_read INA226_REG_MASK,
          Iic_read INA226_REG_MASK, Delay_ms 1,
          Iic_read INA226_REG_MASK, Delay_ms 1,
          Iic_read INA226_REG_MASK, Delay_ms 1,
          Iic_read INA226_REG_MASK,
          Iic_read INA226_REG_BUS_VOLTAGE]"
    and r2: "ina226_read Current (Some ?h2) l2 = Some (Inr v2, Some ?h2, l3)"
    by blast
  have tm: "triggered_mode ?T"
    by (simp add: triggered_mode_def)
  from triggered_read_sequence [OF sm tm r1 r2]
  have "trigger ?h1 = 1" "trigger ?h2 = 0"
    and "events l3 = events l2 @ [Iic_read INA226_REG_MASK, Iic_read (measurement_register Current)]"
    by auto
  moreover from e2 have "length (filter is_delay (events l2)) = 3"
    by simp
  ultimately show ?thesis
    using sm tm r1 r2 by blast
qed


section \<open>Alert dispatch\<close>

lemma test_bit:
  fixes w :: u16
  shows "w AND push_bit k 1 = 0 \<longleftrightarrow> \<not> bit w k"
  by (simp add: bit_iff_and_push_bit_not_eq_0)

lemma test_alert_bits:
  fixes w :: u16
  shows "w AND 16 = 0 \<longleftrightarrow> \<not> bit w 4"
    and "w AND 2048 = 0 \<longleftrightarrow> \<not> bit w 11"
    and "w AND 4096 = 0 \<longleftrightarrow> \<not> bit w 12"
    and "w AND 8192 = 0 \<longleftrightarrow> \<not> bit w 13"
    and "w AND 16384 = 0 \<longleftrightarrow> \<not> bit w 14"
    and "w AND 32768 = 0 \<longleftrightarrow> \<not> bit w 15"
  using test_bit [of w 4] test_bit [of w 11] test_bit [of w 12] test_bit [of w 13]
    test_bit [of w 14] test_bit [of w 15]
  by simp_all

lemma logged_callback:
  "run_callback (logging h) s l = (case receive_callback h of
       None \<Rightarrow> l
     | Some cb \<Rightarrow> log_event (Receive_callback (status_value s)) (cb (status_value s) (world l)) l)"
  by (cases "receive_callback h") (simp_all add: run_callback_def logging_def)

lemma highest_priority_alert_eq:
  "highest_priority_alert prev =
     (if bit prev 15 then Some INA226_STATUS_SHUNT_VOLTAGE_OVER_VOLTAGE
      else if bit prev 14 then Some INA226_STATUS_SHUNT_VOLTAGE_UNDER_VOLTAGE
      else if bit prev 13 then Some INA226_STATUS_BUS_VOLTAGE_OVER_VOLTAGE
      else if bit prev 12 then Some INA226_STATUS_BUS_VOLTAGE_UNDER_VOLTAGE
      else if bit prev 11 then Some INA226_STATUS_POWER_OVER_LIMIT
      else None)"
  by (simp add: highest_priority_alert_def alert_priority_def)


text \<open>
  Claim C7. Whatever value \<^verbatim>\<open>ina226_irq_handler\<close> reads from the mask register, it returns 0
  after at most one call of the alert callback. It calls the callback exactly when the
  alert-function bit (bit 4) and at least one alert-condition bit are set and a callback is
  linked, and then with the status of the first condition, in the order shunt over-voltage,
  shunt under-voltage, bus over-voltage, bus under-voltage, power over-limit, whose bit is
  set. The handler makes no other call than the one read of the mask register.
\<close>

theorem irq_handler_priority:
  assumes "inited h = 1"
    and "a_ina226_iic_read h INA226_REG_MASK (world l) = Some (Inr prev, e1)"
  shows "\<exists>l'. ina226_irq_handler (Some (logging h)) l = Some (Inr (), Some (logging h), l')
     \<and> events l' = events l @ Iic_read INA226_REG_MASK #
          (case (if bit prev 4 then highest_priority_alert prev else None) of
             None \<Rightarrow> []
           | Some s \<Rightarrow> (case receive_callback h of
                None \<Rightarrow> []
              | Some cb \<Rightarrow> [Receive_callback (status_value s)]))
     \<and> length (filter is_callback (events l')) \<le> length (filter is_callback (events l)) + 1"
  using assms
  by (cases "receive_callback h")
    (simp_all add: ina226_irq_handler_def with_handle_Some logged_read logged_callback test_alert_bits
      highest_priority_alert_eq)



theorem irq_handler_priority_witness:
  "inited (sim_handle\<lparr>inited := 1\<rparr>) = 1
   \<and> a_ina226_iic_read (sim_handle\<lparr>inited := 1\<rparr>) INA226_REG_MASK (world (fresh (sim_device 0x4127 0xA810 0)))
       = Some (Inr 0xA818, sim_device 0x4127 0xA810 0)
   \<and> (\<exists>l'. ina226_irq_handler (Some (logging (sim_handle\<lparr>inited := 1\<rparr>))) (fresh (sim_device 0x4127 0xA810 0))
          = Some (Inr (), Some (logging (sim_handle\<lparr>inited := 1\<rparr>)), l')
        \<and> events l' = [Iic_read INA226_REG_MASK,
              Receive_callback (status_value INA226_STATUS_SHUNT_VOLTAGE_OVER_VOLTAGE)])"
proof -
  let ?h = "sim_handle\<lparr>inited := 1\<rparr>"
  let ?w = "sim_device 0x4127 0xA810 0"
  have h1: "inited ?h = 1"
    by simp
  have h2: "a_ina226_iic_read ?h INA226_REG_MASK (world (fresh ?w)) = Some (Inr 0xA818, ?w)"
    by (simp add: sim_read sim_handle_def sim_register_def sim_device_def fresh_def reg_defs)
  have cb: "receive_callback ?h = Some sim_receive_callback"
    by (simp add: sim_handle_def)
  have hp: "(if bit (0xA818 :: u16) 4 then highest_priority_alert 0xA818 else None)
      = Some INA226_STATUS_SHUNT_VOLTAGE_OVER_VOLTAGE"
    by (simp add: highest_priority_alert_eq)
  from irq_handler_priority [OF h1 h2] obtain l' where
    "ina226_irq_handler (Some (logging ?h)) (fresh ?w) = Some (Inr (), Some (logging ?h), l')"
    and "events l' = events (fresh ?w) @ Iic_read INA226_REG_MASK #
          (case (if bit (0xA818 :: u16) 4 then highest_priority_alert 0xA818 else None) of
             None \<Rightarrow> []
           | Some s \<Rightarrow> (case receive_callback ?h of
                None \<Rightarrow> []
              | Some cb \<Rightarrow> [Receive_callback (status_value s)]))"
    by blast
  then have "ina226_irq_handler (Some (logging ?h)) (fresh ?w) = Some (Inr (), Some (logging ?h), l')
        \<and> events l' = [Iic_read INA226_REG_MASK,
              Receive_callback (status_value INA226_STATUS_SHUNT_VOLTAGE_OVER_VOLTAGE)]"
    unfolding hp cb by (simp add: fresh_def)
  with h1 h2 show ?thesis
    by blast
qed

section \<open>Rounding\<close>

lemma rne_floor_ceiling:
  shows "\<lfloor>x\<rfloor> \<le> rne x" and "rne x \<le> \<lceil>x\<rceil>"
proof -
  show "\<lfloor>x\<rfloor> \<le> rne x"
    by (simp add: rne_def Let_def)
  have "\<lfloor>x\<rfloor> + 1 = \<lceil>x\<rceil>" if "x \<noteq> of_int \<lfloor>x\<rfloor>"
    using that by (metis ceiling_altdef of_int_floor_cancel add.commute)
  moreover have "\<lfloor>x\<rfloor> \<le> \<lceil>x\<rceil>"
    by (rule floor_le_ceiling)
  ultimately show "rne x \<le> \<lceil>x\<rceil>"
    by (auto simp: rne_def Let_def)
qed

lemma rne_ge:
  assumes "of_int k \<le> x"
  shows "k \<le> rne x"
proof -
  from assms have "k \<le> \<lfloor>x\<rfloor>"
    by (simp add: le_floor_iff)
  with rne_floor_ceiling(1) [of x] show ?thesis
    by linarith
qed

lemma rne_le:
  assumes "x \<le> of_int k"
  shows "rne x \<le> k"
proof -
  from assms have "\<lceil>x\<rceil> \<le> k"
    by (simp add: ceiling_le_iff)
  with rne_floor_ceiling(2) [of x] show ?thesis
    by linarith
qed

lemma rne_of_int [simp]: "rne (of_int k) = k"
  by (simp add: rne_def)

lemma rne_err: "\<bar>of_int (rne x) - x\<bar> \<le> 1/2"
proof -
  have "of_int \<lfloor>x\<rfloor> \<le> x" "x < of_int \<lfloor>x\<rfloor> + 1"
    by linarith+
  then show ?thesis
    by (auto simp: rne_def Let_def abs_le_iff)
qed

lemma two_powi_nat: "n \<ge> 0 \<Longrightarrow> (of_int (2 ^ nat n) :: rat) = 2 powi n"
  by (simp add: power_int_def)

lemma ilog2_bounds:
  assumes "0 < x"
  shows "2 powi ilog2 x \<le> x" and "x < 2 powi (ilog2 x + 1)"
proof -
  obtain a b where q: "quotient_of x = (a, b)"
    by (cases "quotient_of x")
  then have b: "0 < b" and x: "x = of_int a / of_int b"
    by (simp_all add: quotient_of_denom_pos quotient_of_div)
  with assms have a: "0 < a"
    by (simp add: zero_less_divide_iff)
  define la lb where "la = bitlen a" and "lb = bitlen b"
  have la: "1 \<le> la" and lb: "1 \<le> lb"
    using a b by (simp_all add: la_def lb_def bitlen_alt_def)
  from bitlen_bounds [OF a] have "(of_int (2 ^ nat (la - 1)) :: rat) \<le> of_int a" "(of_int a :: rat) < of_int (2 ^ nat la)"
    unfolding la_def of_int_le_iff of_int_less_iff by simp_all
  then have a1: "2 powi (la - 1) \<le> (of_int a :: rat)" and a2: "(of_int a :: rat) < 2 powi la"
    using la by (simp_all add: two_powi_nat del: of_int_power)
  from bitlen_bounds [OF b] have "(of_int (2 ^ nat (lb - 1)) :: rat) \<le> of_int b" "(of_int b :: rat) < of_int (2 ^ nat lb)"
    unfolding lb_def of_int_le_iff of_int_less_iff by simp_all
  then have b1: "2 powi (lb - 1) \<le> (of_int b :: rat)" and b2: "(of_int b :: rat) < 2 powi lb"
    using lb by (simp_all add: two_powi_nat del: of_int_power)
  define k where "k = la - lb"
  have bp: "(0 :: rat) < of_int b"
    using b by simp
  have up: "x < 2 powi (k + 1)"
  proof -
    have "of_int a < (2 :: rat) powi la"
      by (rule a2)
    also have "\<dots> = 2 powi (k + 1) * 2 powi (lb - 1)"
      by (simp add: k_def flip: power_int_add)
    also have "\<dots> \<le> 2 powi (k + 1) * of_int b"
      using b1 by (intro mult_left_mono) simp_all
    finally show ?thesis
      using bp by (simp add: x pos_divide_less_eq)
  qed
  have lo: "2 powi (k - 1) \<le> x"
  proof -
    have "2 powi (k - 1) * of_int b \<le> 2 powi (k - 1) * (2 :: rat) powi lb"
      using b2 by (intro mult_left_mono) simp_all
    also have "\<dots> = 2 powi (la - 1)"
      by (simp add: k_def flip: power_int_add)
    also have "\<dots> \<le> of_int a"
      by (rule a1)
    finally show ?thesis
      using bp by (simp add: x pos_le_divide_eq)
  qed
  have il: "ilog2 x = (if 2 powi k \<le> x then k else k - 1)"
    by (simp add: ilog2_def q k_def la_def lb_def Let_def)
  show "2 powi ilog2 x \<le> x"
    using lo by (simp add: il)
  show "x < 2 powi (ilog2 x + 1)"
    using up by (simp add: il)
qed

lemma round_to_unfold:
  assumes "x \<noteq> 0"
  shows "round_to p emin x
     = of_int (rne (x / 2 powi (max (ilog2 \<bar>x\<bar>) emin - int p + 1))) * 2 powi (max (ilog2 \<bar>x\<bar>) emin - int p + 1)"
  using assms by (simp add: round_to_def Let_def)


lemma round_to_err:
  "\<bar>round_to p emin x - x\<bar> \<le> 2 powi (max (ilog2 \<bar>x\<bar>) emin - int p)"
proof (cases "x = 0")
  case True
  then show ?thesis
    by (simp add: round_to_def)
next
  case False
  define d where "d = max (ilog2 \<bar>x\<bar>) emin - int p"
  define q :: rat where "q = 2 powi (d + 1)"
  have q: "0 < q"
    by (simp add: q_def)
  have q2: "q = 2 powi d * 2"
    unfolding q_def by (rule power_int_add_1) simp
  have r: "round_to p emin x = of_int (rne (x / q)) * q"
    unfolding q_def d_def using False by (rule round_to_unfold)
  have "(of_int (rne (x / q)) - x / q) * q = of_int (rne (x / q)) * q - x"
    using q by (simp add: left_diff_distrib)
  then have "\<bar>round_to p emin x - x\<bar> = \<bar>(of_int (rne (x / q)) - x / q) * q\<bar>"
    by (simp only: r)
  also have "\<dots> = \<bar>of_int (rne (x / q)) - x / q\<bar> * q"
    using q by (simp only: abs_mult abs_of_pos)
  also have "\<dots> \<le> 1/2 * q"
    using rne_err [of "x / q"] q by (intro mult_right_mono) simp_all
  also have "\<dots> = 2 powi d"
    by (simp only: q2)
  finally show ?thesis
    by (simp only: d_def)
qed

lemma round_to_rel_err:
  assumes "x \<noteq> 0" and "emin \<le> ilog2 \<bar>x\<bar>"
  shows "\<bar>round_to p emin x - x\<bar> \<le> \<bar>x\<bar> * 2 powi (- int p)"
proof -
  have "\<bar>round_to p emin x - x\<bar> \<le> 2 powi (ilog2 \<bar>x\<bar> - int p)"
    using round_to_err [of p emin x] assms(2) by (simp add: max_def)
  also have "\<dots> = 2 powi ilog2 \<bar>x\<bar> * 2 powi (- int p)"
    by (simp add: power_int_diff power_int_minus divide_inverse)
  also have "\<dots> \<le> \<bar>x\<bar> * 2 powi (- int p)"
    using ilog2_bounds(1) [of "\<bar>x\<bar>"] assms(1) by (intro mult_right_mono) simp_all
  finally show ?thesis .
qed


lemma ilog2_less:
  assumes "0 < x" and "x < 2 powi n"
  shows "ilog2 x < n"
proof (rule ccontr)
  assume "\<not> ilog2 x < n"
  then have "(2 :: rat) powi n \<le> 2 powi ilog2 x"
    by (intro power_int_increasing) simp_all
  with ilog2_bounds(1) [OF assms(1)] assms(2) show False
    by linarith
qed


lemma ilog2_ge:
  assumes "2 powi n \<le> x"
  shows "n \<le> ilog2 x"
proof (rule ccontr)
  assume "\<not> n \<le> ilog2 x"
  then have "(2 :: rat) powi (ilog2 x + 1) \<le> 2 powi n"
    by (intro power_int_increasing) simp_all
  moreover have "0 < x"
    using assms by (rule less_le_trans [rotated]) simp
  ultimately show False
    using ilog2_bounds(2) [of x] assms by linarith
qed


lemma round_to_scaled:
  assumes "x \<noteq> 0" and "\<bar>x\<bar> < 2 ^ p" and "emin < int p"
  obtains n where "round_to p emin x = of_int (rne (x * 2 ^ n)) / 2 ^ n"
proof -
  have "ilog2 \<bar>x\<bar> < int p"
    using assms by (intro ilog2_less) simp_all
  with assms(3) have "max (ilog2 \<bar>x\<bar>) emin - int p + 1 \<le> 0"
    by simp
  then obtain n where n: "max (ilog2 \<bar>x\<bar>) emin - int p + 1 = - int n"
    by (metis nat_0_le neg_0_le_iff_le minus_minus)
  have "(2 :: rat) powi (- int n) = 1 / 2 ^ n"
    by (simp add: power_int_minus divide_inverse)
  then have "round_to p emin x = of_int (rne (x * 2 ^ n)) / 2 ^ n"
    using assms(1) by (simp add: round_to_unfold n)
  then show ?thesis ..
qed


lemma round_to_int_bounds:
  assumes "\<bar>x\<bar> < 2 ^ p" and "emin < int p"
  shows "of_int k \<le> x \<Longrightarrow> of_int k \<le> round_to p emin x"
    and "x \<le> of_int k \<Longrightarrow> round_to p emin x \<le> of_int k"
proof -
  have *: "(of_int k \<le> x \<longrightarrow> of_int k \<le> round_to p emin x)
      \<and> (x \<le> of_int k \<longrightarrow> round_to p emin x \<le> of_int k)"
  proof (cases "x = 0")
    case True
    then show ?thesis
      by (simp add: round_to_def)
  next
    case False
    from round_to_scaled [OF False assms] obtain n where
      n: "round_to p emin x = of_int (rne (x * 2 ^ n)) / 2 ^ n"
      by blast
    have "of_int k \<le> round_to p emin x" if "of_int k \<le> x"
    proof -
      from that have "of_int (k * 2 ^ n) \<le> x * 2 ^ n"
        by simp
      then have "k * 2 ^ n \<le> rne (x * 2 ^ n)"
        by (rule rne_ge)
      then have "(of_int (k * 2 ^ n) :: rat) \<le> of_int (rne (x * 2 ^ n))"
        by (simp only: of_int_le_iff)
      then show ?thesis
        by (simp add: n pos_le_divide_eq)
    qed
    moreover have "round_to p emin x \<le> of_int k" if "x \<le> of_int k"
    proof -
      from that have "x * 2 ^ n \<le> of_int (k * 2 ^ n)"
        by simp
      then have "rne (x * 2 ^ n) \<le> k * 2 ^ n"
        by (rule rne_le)
      then have "(of_int (rne (x * 2 ^ n)) :: rat) \<le> of_int (k * 2 ^ n)"
        by (simp only: of_int_le_iff)
      then show ?thesis
        by (simp add: n pos_divide_le_eq)
    qed
    ultimately show ?thesis
      by blast
  qed
  from * show "of_int k \<le> x \<Longrightarrow> of_int k \<le> round_to p emin x"
    by blast
  from * show "x \<le> of_int k \<Longrightarrow> round_to p emin x \<le> of_int k"
    by blast
qed

section \<open>The calibration code\<close>

lemma calibration_value:
  "to_uint16 (f64 (f64 (512/100000) / f64 (f64 (8192/100000) / 2 ^ 15))) = Some 2048"
  by code_simp

lemma f32_threshold: "f32 (1/1000000) = 8796093 / 2 ^ 43"
  by code_simp

lemma calibration_exact:
  "trunc ((512/100000) / ((8192/100000) / 2 ^ 15)) = 2048"
  "round ((512/100000) / ((8192/100000) / 2 ^ 15) :: rat) = 2048"
  by code_simp+

lemma calculate_calibration_Some:
  assumes "inited h = 1"
  shows "ina226_calculate_calibration (Some h) e =
    (if \<bar>r h\<bar> \<le> 8796093 / 2 ^ 43
     then map_option (\<lambda>e1. (Inl 4, Some h, e1)) (call_debug h ''ina226: r can't be zero.\<newline>'' e)
     else Some (Inr 2048, Some (h\<lparr>current_lsb := f64 (f64 (f64 (8192/100000) / r h) / 2 ^ 15)\<rparr>), e))"
proof -
  have "(- f32 (1/1000000) \<le> r h \<and> r h \<le> f32 (1/1000000)) = (\<bar>r h\<bar> \<le> 8796093 / 2 ^ 43)"
    unfolding f32_threshold by (simp add: abs_le_iff) linarith
  then show ?thesis
    unfolding ina226_calculate_calibration_def Let_def calibration_value
    using assms
    by (cases "debug_print h") (simp_all add: with_handle_Some call_debug_def)
qed

lemma sim_lsb: "f64 (f64 (f64 (8192/100000) / f64 (4/1000)) / 2 ^ 15) = f64 (625/1000000)"
  by code_simp

lemma sim_r: "\<not> \<bar>f64 (4/1000)\<bar> \<le> 8796093 / 2 ^ 43"
  by code_simp

lemma sim_calibration:
  "ina226_calculate_calibration (Some (sim_handle\<lparr>inited := 1\<rparr>)) e
     = Some (Inr 2048, Some (sim_handle\<lparr>inited := 1, current_lsb := f64 (625/1000000)\<rparr>), e)"
proof -
  have i: "inited (sim_handle\<lparr>inited := 1\<rparr>) = 1"
    by simp
  have r: "r (sim_handle\<lparr>inited := 1\<rparr>) = f64 (4/1000)"
    by (simp add: sim_handle_def)
  show ?thesis
    unfolding calculate_calibration_Some [OF i] r sim_lsb using sim_r by simp
qed

text \<open>
  Claim C10: whenever \<^verbatim>\<open>ina226_calculate_calibration\<close> succeeds, the calibration code it
  outputs is 2048, which is the integral part of \<open>0.00512 / (0.08192 / 2 ^ 15)\<close>; the stored
  resistance enters the new \<^verbatim>\<open>current_lsb\<close> of the handle only. The quotient is computed in
  double precision by the code; the rounding of the two literals and of the two divisions
  does not move the result away from 2048.
\<close>

theorem calibration_code_constant:
  assumes "ina226_calculate_calibration hp e = Some (Inr cal, hp', e')"
  shows "cal = 2048 \<and> uint cal = trunc ((512/100000) / ((8192/100000) / 2 ^ 15))
    \<and> (\<exists>h. hp = Some h \<and> hp' = Some (h\<lparr>current_lsb := f64 (f64 (f64 (8192/100000) / r h) / 2 ^ 15)\<rparr>))"
proof (cases hp)
  case None
  with assms show ?thesis
    by (simp add: ina226_calculate_calibration_def with_handle_def)
next
  case (Some h)
  show ?thesis
  proof (cases "inited h = 1")
    case True
    from assms have "cal = 2048
        \<and> hp' = Some (h\<lparr>current_lsb := f64 (f64 (f64 (8192/100000) / r h) / 2 ^ 15)\<rparr>)"
      unfolding Some calculate_calibration_Some [OF True]
      by (auto split: if_splits)
    then show ?thesis
      unfolding calibration_exact using Some by simp
  next
    case False
    with assms Some show ?thesis
      by (simp add: ina226_calculate_calibration_def with_handle_def)
  qed
qed

theorem calibration_code_constant_witness:
  "ina226_calculate_calibration (Some (sim_handle\<lparr>inited := 1\<rparr>)) (sim_device 0x4127 0 0)
     = Some (Inr 2048, Some (sim_handle\<lparr>inited := 1, current_lsb := f64 (625/1000000)\<rparr>),
         sim_device 0x4127 0 0)
   \<and> uint (2048 :: u16) = trunc ((512/100000) / ((8192/100000) / 2 ^ 15))"
  using calibration_code_constant [OF sim_calibration [of "sim_device 0x4127 0 0"]] sim_calibration
  by simp

section \<open>The current resolution and the power ratio\<close>

lemma calculate_calibration_success:
  assumes "ina226_calculate_calibration (Some h) e = Some (Inr cal, hp', e')"
  shows "inited h = 1" and "\<not> \<bar>r h\<bar> \<le> 8796093 / 2 ^ 43" and "cal = 2048" and "e' = e"
    and "hp' = Some (h\<lparr>current_lsb := f64 (f64 (f64 (8192/100000) / r h) / 2 ^ 15)\<rparr>)"
proof -
  show i: "inited h = 1"
    using assms by (rule contrapos_pp) (simp add: ina226_calculate_calibration_def with_handle_def)
  from assms show "\<not> \<bar>r h\<bar> \<le> 8796093 / 2 ^ 43" and "cal = 2048" and "e' = e"
    and "hp' = Some (h\<lparr>current_lsb := f64 (f64 (f64 (8192/100000) / r h) / 2 ^ 15)\<rparr>)"
    unfolding calculate_calibration_Some [OF i] by (auto split: if_splits)
qed

lemma power_of_one:
  "f32 (f64 (f64 (f64 (of_nat (unat (1 :: u16)) * f64 (625/1000000)) * 25) * 1000)) = 125/8"
  "f64 (f64 (f64 (f64 (625/1000000) * 25) * 1000) * 1) = 125/8"
  "(125/8 :: rat) = (8192/100000) / (4/1000) / 2 ^ 15 * 25 * 1000"
  by code_simp+

lemma sim_resistance: "r (sim_handle\<lparr>inited := 1\<rparr>) = f64 (4/1000)"
  by (simp add: sim_handle_def)

text \<open>
  Claim C6: a successful \<^verbatim>\<open>ina226_calculate_calibration\<close> changes nothing but \<^verbatim>\<open>current_lsb\<close>,
  which becomes \<open>0.08192 / r / 2 ^ 15\<close> as double-precision arithmetic evaluates it (the
  literal, then each of the two divisions, rounded to \<^verbatim>\<open>double\<close>), and it outputs the code
  \<open>round (0.00512 / (0.08192 / 2 ^ 15))\<close>. For the resistance \<^verbatim>\<open>0.004\<close> the stored value is the
  \<^verbatim>\<open>double\<close> nearest to \<open>0.000625\<close>; \<^verbatim>\<open>ina226_power_convert_to_data\<close> then maps the raw value 1 to
  \<open>15.625\<close>, which is what the product \<^verbatim>\<open>current_lsb * 25 * 1000 * 1\<close> gives in double precision
  and also what \<open>0.08192 / 0.004 / 2 ^ 15 \<times> 25 \<times> 1000\<close> is in exact arithmetic.
\<close>

theorem calibration_formula:
  assumes "ina226_calculate_calibration (Some h) e = Some (Inr cal, hp', e')"
  shows "hp' = Some (h\<lparr>current_lsb := f64 (f64 (f64 (8192/100000) / r h) / 2 ^ 15)\<rparr>)
    \<and> e' = e
    \<and> uint cal = round ((512/100000) / ((8192/100000) / 2 ^ 15) :: rat)
    \<and> (r h = f64 (4/1000) \<longrightarrow>
          hp' = Some (h\<lparr>current_lsb := f64 (625/1000000)\<rparr>)
        \<and> ina226_power_convert_to_data hp' 1 e = Some (Inr (125/8), hp', e)
        \<and> f64 (f64 (f64 (f64 (625/1000000) * 25) * 1000) * 1) = 125/8
        \<and> (125/8 :: rat) = (8192/100000) / (4/1000) / 2 ^ 15 * 25 * 1000)"
proof (intro conjI impI)
  note s = calculate_calibration_success [OF assms]
  show "hp' = Some (h\<lparr>current_lsb := f64 (f64 (f64 (8192/100000) / r h) / 2 ^ 15)\<rparr>)"
    by (rule s(5))
  show "e' = e"
    by (rule s(4))
  show "uint cal = round ((512/100000) / ((8192/100000) / 2 ^ 15) :: rat)"
    unfolding calibration_exact s(3) by simp
  show "f64 (f64 (f64 (f64 (625/1000000) * 25) * 1000) * 1) = 125/8"
    by (rule power_of_one(2))
  show "(125/8 :: rat) = (8192/100000) / (4/1000) / 2 ^ 15 * 25 * 1000"
    by (rule power_of_one(3))
  assume r: "r h = f64 (4/1000)"
  show hp': "hp' = Some (h\<lparr>current_lsb := f64 (625/1000000)\<rparr>)"
    unfolding s(5) r sim_lsb ..
  have i: "inited (h\<lparr>current_lsb := f64 (625/1000000)\<rparr>) = 1"
    using s(1) by simp
  have lsb: "current_lsb (h\<lparr>current_lsb := f64 (625/1000000)\<rparr>) = f64 (625/1000000)"
    by simp
  show "ina226_power_convert_to_data hp' 1 e = Some (Inr (125/8), hp', e)"
    unfolding hp' ina226_power_convert_to_data_def with_handle_Some [OF i] lsb power_of_one(1)
    by simp
qed

theorem calibration_formula_witness:
  "ina226_calculate_calibration (Some (sim_handle\<lparr>inited := 1\<rparr>)) (sim_device 0x4127 0 0)
     = Some (Inr 2048, Some (sim_handle\<lparr>inited := 1, current_lsb := f64 (625/1000000)\<rparr>),
         sim_device 0x4127 0 0)
   \<and> ina226_power_convert_to_data
         (Some (sim_handle\<lparr>inited := 1, current_lsb := f64 (625/1000000)\<rparr>)) 1 (sim_device 0x4127 0 0)
     = Some (Inr (125/8), Some (sim_handle\<lparr>inited := 1, current_lsb := f64 (625/1000000)\<rparr>),
         sim_device 0x4127 0 0)"
proof
  note c = sim_calibration [of "sim_device 0x4127 0 0"]
  show "ina226_calculate_calibration (Some (sim_handle\<lparr>inited := 1\<rparr>)) (sim_device 0x4127 0 0)
     = Some (Inr 2048, Some (sim_handle\<lparr>inited := 1, current_lsb := f64 (625/1000000)\<rparr>),
         sim_device 0x4127 0 0)"
    by (rule c)
  show "ina226_power_convert_to_data
         (Some (sim_handle\<lparr>inited := 1, current_lsb := f64 (625/1000000)\<rparr>)) 1 (sim_device 0x4127 0 0)
     = Some (Inr (125/8), Some (sim_handle\<lparr>inited := 1, current_lsb := f64 (625/1000000)\<rparr>),
         sim_device 0x4127 0 0)"
    by (rule calibration_formula [OF c, THEN conjunct2, THEN conjunct2, THEN conjunct2, THEN mp,
          OF sim_resistance, THEN conjunct2, THEN conjunct1])
qed

section \<open>The degenerate resistance\<close>

lemma double_micro:
  "\<bar>f64 (1/1000000)\<bar> \<le> 1/1000000"
  "\<not> \<bar>f64 (1/1000000)\<bar> \<le> 8796093 / 2 ^ 43"
  "f64 (f64 (f64 (8192/100000) / f64 (1/1000000)) / 2 ^ 15) = 5629499534213121 / 2251799813685248"
  by code_simp+

lemma sim_zero:
  "inited (sim_handle\<lparr>inited := 1, r := 0\<rparr>) = 1"
  "debug_print (sim_handle\<lparr>inited := 1, r := 0\<rparr>) = Some sim_debug_print"
  "\<bar>r (sim_handle\<lparr>inited := 1, r := 0\<rparr>)\<bar> \<le> f32 (1/1000000)"
  "inited (sim_handle\<lparr>inited := 1, r := 1\<rparr>) = 1"
  "debug_print (sim_handle\<lparr>inited := 1, r := 1\<rparr>) = Some sim_debug_print"
  "f32 (1/1000000) < \<bar>r (sim_handle\<lparr>inited := 1, r := 1\<rparr>)\<bar>"
  "r (sim_handle\<lparr>inited := 1, r := 1\<rparr>) = 1"
  "inited (sim_handle\<lparr>inited := 1\<rparr>) = 1"
  "debug_print (sim_handle\<lparr>inited := 1\<rparr>) = Some sim_debug_print"
  by (simp_all add: sim_handle_def f32_threshold)

text \<open>
  Claim C5 says that every resistance within \<open>\<plusminus>1e-6\<close> of zero is rejected with status 4. The
  bounds in the code are the single-precision literals \<^verbatim>\<open>0.000001f\<close>, whose value
  \<open>8796093 / 2 ^ 43\<close> lies below \<open>1e-6\<close>, while the resistance is a \<^verbatim>\<open>double\<close>. The \<^verbatim>\<open>double\<close>
  nearest to \<open>1e-6\<close> is within \<open>1e-6\<close> of zero and above the bound: with it the call succeeds and
  sets \<^verbatim>\<open>current_lsb\<close>.
\<close>

theorem degenerate_resistance_counterexample:
  "\<bar>f64 (1/1000000)\<bar> \<le> 1/1000000
   \<and> ina226_calculate_calibration (Some (sim_handle\<lparr>inited := 1, r := f64 (1/1000000)\<rparr>))
         (sim_device 0x4127 0 0)
     = Some (Inr 2048,
         Some (sim_handle\<lparr>inited := 1, r := f64 (1/1000000),
                 current_lsb := 5629499534213121 / 2251799813685248\<rparr>),
         sim_device 0x4127 0 0)"
proof
  show "\<bar>f64 (1/1000000)\<bar> \<le> 1/1000000"
    by (rule double_micro(1))
  have i: "inited (sim_handle\<lparr>inited := 1, r := f64 (1/1000000)\<rparr>) = 1"
    by simp
  have r: "r (sim_handle\<lparr>inited := 1, r := f64 (1/1000000)\<rparr>) = f64 (1/1000000)"
    by simp
  show "ina226_calculate_calibration (Some (sim_handle\<lparr>inited := 1, r := f64 (1/1000000)\<rparr>))
         (sim_device 0x4127 0 0)
     = Some (Inr 2048,
         Some (sim_handle\<lparr>inited := 1, r := f64 (1/1000000),
                 current_lsb := 5629499534213121 / 2251799813685248\<rparr>),
         sim_device 0x4127 0 0)"
    unfolding calculate_calibration_Some [OF i] r double_micro(3) using double_micro(2) by simp
qed

text \<open>
  Claim C5, with the bound the code uses: on an initialized handle whose \<^verbatim>\<open>debug_print\<close> is
  linked, \<^verbatim>\<open>ina226_calculate_calibration\<close> returns status 4 when the stored resistance is
  within the single-precision value of \<^verbatim>\<open>0.000001f\<close> of zero (zero included); it then leaves
  the handle as it is, produces no output and does nothing but print the message. For
  every other resistance it succeeds, and so for \<^verbatim>\<open>0.004\<close>.
\<close>

theorem degenerate_resistance:
  assumes "inited h = 1" and "debug_print h = Some p"
  shows "(\<bar>r h\<bar> \<le> f32 (1/1000000) \<longrightarrow>
            ina226_calculate_calibration (Some h) e
              = Some (Inl 4, Some h, p ''ina226: r can't be zero.\<newline>'' e))
    \<and> (f32 (1/1000000) < \<bar>r h\<bar> \<longrightarrow>
            ina226_calculate_calibration (Some h) e
              = Some (Inr 2048, Some (h\<lparr>current_lsb := f64 (f64 (f64 (8192/100000) / r h) / 2 ^ 15)\<rparr>), e))
    \<and> (r h = f64 (4/1000) \<longrightarrow>
            ina226_calculate_calibration (Some h) e
              = Some (Inr 2048, Some (h\<lparr>current_lsb := f64 (625/1000000)\<rparr>), e))
    \<and> f32 (1/1000000) = 8796093 / 2 ^ 43"
proof (intro conjI impI)
  show "f32 (1/1000000) = 8796093 / 2 ^ 43"
    by (rule f32_threshold)
next
  assume "\<bar>r h\<bar> \<le> f32 (1/1000000)"
  then show "ina226_calculate_calibration (Some h) e
      = Some (Inl 4, Some h, p ''ina226: r can't be zero.\<newline>'' e)"
    unfolding calculate_calibration_Some [OF assms(1)] f32_threshold
    using assms(2) by (simp add: call_debug_def)
next
  assume "f32 (1/1000000) < \<bar>r h\<bar>"
  then show "ina226_calculate_calibration (Some h) e
      = Some (Inr 2048, Some (h\<lparr>current_lsb := f64 (f64 (f64 (8192/100000) / r h) / 2 ^ 15)\<rparr>), e)"
    unfolding calculate_calibration_Some [OF assms(1)] f32_threshold
    by simp
next
  assume r: "r h = f64 (4/1000)"
  show "ina226_calculate_calibration (Some h) e
      = Some (Inr 2048, Some (h\<lparr>current_lsb := f64 (625/1000000)\<rparr>), e)"
    unfolding calculate_calibration_Some [OF assms(1)] r sim_lsb
    using sim_r by simp
qed

theorem degenerate_resistance_witness:
  "ina226_calculate_calibration (Some (sim_handle\<lparr>inited := 1, r := 0\<rparr>)) (sim_device 0x4127 0 0)
     = Some (Inl 4, Some (sim_handle\<lparr>inited := 1, r := 0\<rparr>),
         sim_debug_print ''ina226: r can't be zero.\<newline>'' (sim_device 0x4127 0 0))
   \<and> ina226_calculate_calibration (Some (sim_handle\<lparr>inited := 1, r := 1\<rparr>)) (sim_device 0x4127 0 0)
     = Some (Inr 2048,
         Some (sim_handle\<lparr>inited := 1, r := 1,
                 current_lsb := f64 (f64 (f64 (8192/100000) / 1) / 2 ^ 15)\<rparr>),
         sim_device 0x4127 0 0)
   \<and> ina226_calculate_calibration (Some (sim_handle\<lparr>inited := 1\<rparr>)) (sim_device 0x4127 0 0)
     = Some (Inr 2048, Some (sim_handle\<lparr>inited := 1, current_lsb := f64 (625/1000000)\<rparr>),
         sim_device 0x4127 0 0)"
proof (intro conjI)
  show "ina226_calculate_calibration (Some (sim_handle\<lparr>inited := 1, r := 1\<rparr>)) (sim_device 0x4127 0 0)
     = Some (Inr 2048,
         Some (sim_handle\<lparr>inited := 1, r := 1,
                 current_lsb := f64 (f64 (f64 (8192/100000) / 1) / 2 ^ 15)\<rparr>),
         sim_device 0x4127 0 0)"
    using degenerate_resistance [OF sim_zero(4) sim_zero(5), THEN conjunct2, THEN conjunct1, THEN mp,
          OF sim_zero(6)]
    unfolding sim_zero(7) .
  show "ina226_calculate_calibration (Some (sim_handle\<lparr>inited := 1, r := 0\<rparr>)) (sim_device 0x4127 0 0)
     = Some (Inl 4, Some (sim_handle\<lparr>inited := 1, r := 0\<rparr>),
         sim_debug_print ''ina226: r can't be zero.\<newline>'' (sim_device 0x4127 0 0))"
    by (rule degenerate_resistance [OF sim_zero(1) sim_zero(2), THEN conjunct1, THEN mp, OF sim_zero(3)])
  show "ina226_calculate_calibration (Some (sim_handle\<lparr>inited := 1\<rparr>)) (sim_device 0x4127 0 0)
     = Some (Inr 2048, Some (sim_handle\<lparr>inited := 1, current_lsb := f64 (625/1000000)\<rparr>),
         sim_device 0x4127 0 0)"
    by (rule degenerate_resistance [OF sim_zero(8) sim_zero(9), THEN conjunct2, THEN conjunct2,
          THEN conjunct1, THEN mp, OF sim_resistance])
qed

end
